theory Spec2Isabelle
  imports Main "HOL-Library.Word"
begin

section \<open>Model asset: LOD streaming, residency, SDF and header persistence\<close>

text \<open>
  A shallow embedding of \<^verbatim>\<open>Source/Engine/Content/Assets/Model.cpp\<close>.
  Every C++ method becomes a function that takes the asset's state (the record
  \<open>Model\<close>) and returns the new state next to the method's result. Collaborators that
  are declared in headers outside this file (the LOD loader, the chunk store, the
  SDF generator, build switches and limits) are the fields of the record \<open>Env\<close>:
  every theorem holds for each of their implementations.
\<close>

subsection \<open>Scalars\<close>

type_synonym byte = "8 word"

text \<open>A \<^verbatim>\<open>float\<close> is kept as its 32-bit pattern: the code only stores and copies it.\<close>

type_synonym f32 = "32 word"

text \<open>\<^verbatim>\<open>String\<close> is a sequence of 16-bit characters.\<close>

type_synonym String = "16 word list"

type_synonym Guid = "128 word"

type_synonym Vector3 = "f32 \<times> f32 \<times> f32"

text \<open>
  \<^verbatim>\<open>int32\<close> values are integers; where the code computes one, the wrap-around of
  32-bit two's complement is written out with \<open>int32\<close>.
\<close>

definition int32 :: "int \<Rightarrow> int" where
  "int32 x = (x + 2147483648) mod 4294967296 - 2147483648"

definition is_int32 :: "int \<Rightarrow> bool" where
  "is_int32 x = (- 2147483648 \<le> x \<and> x < 2147483648)"

text \<open>
  Modelled from the spec: \<^verbatim>\<open>Math::Clamp\<close> (Engine/Core/Math is not part of this
  file); the spec says the requested LOD is clamped into a range.
\<close>

definition Clamp :: "int \<Rightarrow> int \<Rightarrow> int \<Rightarrow> int" where
  "Clamp v lo hi = (if v < lo then lo else if v < hi then v else hi)"

subsection \<open>Geometry and material slots\<close>

record BoundingBox =
  Minimum :: Vector3
  Maximum :: Vector3

record BoundingSphere =
  Center :: Vector3
  Radius :: f32

record MaterialSlot =
  Material :: Guid
  ShadowsMode :: byte
  Name :: String

text \<open>
  A mesh: the metadata of the header chunk, the counts and index width set when its LOD
  is loaded, and the contents of its GPU buffers (\<open>None\<close>: the buffer does not exist).
\<close>

record Mesh =
  MaterialSlotIndex :: int
  Box :: BoundingBox
  Sphere :: BoundingSphere
  HasLightmapUVs :: bool
  VertexCount :: "32 word"
  TriangleCount :: "32 word"
  Use16BitIndexBuffer :: bool
  VertexBuffer0 :: "byte list option"
  VertexBuffer1 :: "byte list option"
  VertexBuffer2 :: "byte list option"
  IndexBuffer :: "byte list option"

record ModelLOD =
  ScreenSize :: f32
  Meshes :: "Mesh list"

text \<open>
  Modelled from the spec: \<^verbatim>\<open>Mesh::Init\<close> (Mesh.cpp is not part of this file). The
  spec's data model: the bounding box and sphere, the material slot index and the
  lightmap-UV flag are set from the header; the mesh starts without GPU buffers.
\<close>

definition Mesh_Init :: "int \<Rightarrow> BoundingBox \<Rightarrow> BoundingSphere \<Rightarrow> bool \<Rightarrow> Mesh" where
  "Mesh_Init materialSlotIndex box sphere hasLightmapUVs =
     \<lparr>MaterialSlotIndex = materialSlotIndex, Box = box, Sphere = sphere,
      HasLightmapUVs = hasLightmapUVs, VertexCount = 0, TriangleCount = 0,
      Use16BitIndexBuffer = False, VertexBuffer0 = None, VertexBuffer1 = None,
      VertexBuffer2 = None, IndexBuffer = None\<rparr>"

subsection \<open>Signed distance field\<close>

text \<open>\<open>Texture\<close> is the handle of the GPU volume texture; \<open>None\<close> is the null pointer.\<close>

record SDFData =
  Texture :: "nat option"
  LocalToUVWMul :: Vector3
  LocalToUVWAdd :: Vector3
  WorldUnitsPerVoxel :: f32
  MaxDistance :: f32
  LocalBoundsMin :: Vector3
  LocalBoundsMax :: Vector3
  ResolutionScale :: f32
  LOD :: int

record ModelSDFHeader =
  hLocalToUVWMul :: Vector3
  hWorldUnitsPerVoxel :: f32
  hLocalToUVWAdd :: Vector3
  hMaxDistance :: f32
  hLocalBoundsMin :: Vector3
  hMipLevels :: int
  hLocalBoundsMax :: Vector3
  hWidth :: int
  hHeight :: int
  hDepth :: int
  hFormat :: int
  hResolutionScale :: f32
  hLOD :: int

record ModelSDFMip =
  MipIndex :: int
  RowPitch :: int
  SlicePitch :: int

subsection \<open>Streams\<close>

text \<open>
  Modelled from the spec: the read and write streams (Engine/Serialization is not part
  of this file). The spec lists each chunk as a sequence of typed fields and does not
  give the byte size of every field, so a stream is the sequence of the values written,
  one item per \<^verbatim>\<open>Write...\<close> call; a \<^verbatim>\<open>Read...\<close> call takes the next item when
  it is of the kind asked for. Narrowing a value to the width of its field is done by
  the writer, as in the code. A read that finds the stream at its end, or an item of
  another kind, stops the function with \<open>StreamFault\<close>: what the stream library does
  there is outside this file.
\<close>

datatype item =
    Float f32
  | Int32 "32 word"
  | Uint32 "32 word"
  | Uint16 "16 word"
  | Byte byte
  | Bool bool
  | GuidItem Guid
  | StringItem int String
  | BoxItem BoundingBox
  | SphereItem BoundingSphere
  | Bytes "byte list"
  | SDFHeaderItem ModelSDFHeader
  | SDFMipItem ModelSDFMip

type_synonym stream = "item list"

text \<open>
  How a function can stop without returning: an \<^verbatim>\<open>ASSERT\<close> that fails, the
  \<^verbatim>\<open>CRASH\<close> macro, or a stream fault.
\<close>

datatype abort = AssertFailed | Crashed | StreamFault

fun ReadFloat :: "stream \<Rightarrow> abort + f32 \<times> stream" where
  "ReadFloat (Float x # s) = Inr (x, s)"
| "ReadFloat _ = Inl StreamFault"

fun ReadInt32 :: "stream \<Rightarrow> abort + int \<times> stream" where
  "ReadInt32 (Int32 w # s) = Inr (sint w, s)"
| "ReadInt32 _ = Inl StreamFault"

fun ReadUint16 :: "stream \<Rightarrow> abort + nat \<times> stream" where
  "ReadUint16 (Uint16 w # s) = Inr (unat w, s)"
| "ReadUint16 _ = Inl StreamFault"

fun ReadByte :: "stream \<Rightarrow> abort + byte \<times> stream" where
  "ReadByte (Byte b # s) = Inr (b, s)"
| "ReadByte _ = Inl StreamFault"

fun ReadBool :: "stream \<Rightarrow> abort + bool \<times> stream" where
  "ReadBool (Bool b # s) = Inr (b, s)"
| "ReadBool _ = Inl StreamFault"

fun ReadGuid :: "stream \<Rightarrow> abort + Guid \<times> stream" where
  "ReadGuid (GuidItem g # s) = Inr (g, s)"
| "ReadGuid _ = Inl StreamFault"

text \<open>
  \<^verbatim>\<open>ReadString(&name, 11)\<close> and \<^verbatim>\<open>WriteString(name, 11)\<close>: the second argument is
  kept with the item, and a string is read back by the call that gives the same one.
\<close>

fun ReadString :: "int \<Rightarrow> stream \<Rightarrow> abort + String \<times> stream" where
  "ReadString lock (StringItem k x # s) = (if k = lock then Inr (x, s) else Inl StreamFault)"
| "ReadString lock _ = Inl StreamFault"

fun ReadBoundingBox :: "stream \<Rightarrow> abort + BoundingBox \<times> stream" where
  "ReadBoundingBox (BoxItem b # s) = Inr (b, s)"
| "ReadBoundingBox _ = Inl StreamFault"

fun ReadBoundingSphere :: "stream \<Rightarrow> abort + BoundingSphere \<times> stream" where
  "ReadBoundingSphere (SphereItem b # s) = Inr (b, s)"
| "ReadBoundingSphere _ = Inl StreamFault"

subsection \<open>The asset\<close>

datatype LogType = Info | Warning | Error

text \<open>The upload task of one LOD (\<^verbatim>\<open>StreamModelLODTask\<close>): its \<^verbatim>\<open>_lodIndex\<close>.\<close>

record StreamModelLODTask =
  taskLodIndex :: int

text \<open>
  What \<^verbatim>\<open>CreateStreamingTask\<close> returns: the upload task itself, or the chunk read
  that \<^verbatim>\<open>RequestLODDataAsync\<close> started, continued by the upload task.
\<close>

datatype Task =
    UploadTask StreamModelLODTask
  | ChunkReadTask int Task

text \<open>
  The fields of \<^verbatim>\<open>Model\<close>, and the effects the methods have outside the object:
  the data chunks of the asset, the log, the number of \<^verbatim>\<open>ResidencyChanged()\<close>
  notifications, the GPU textures released, the mip upload tasks started, the storage
  locks that tasks of the asset hold, and whether the streaming driver handles the asset.
\<close>

record Model =
  MinScreenSize :: f32
  MaterialSlots :: "MaterialSlot list"
  LODs :: "ModelLOD list"
  loadedLODs :: int
  streamingTask :: "StreamModelLODTask option"
  SDF :: SDFData
  Chunks :: "nat \<Rightarrow> stream option"
  Log :: "(LogType \<times> string) list"
  ResidencyChanged :: nat
  ReleasedTextures :: "nat list"
  StartedMipTasks :: "(ModelSDFMip \<times> byte list) list"
  StorageLocks :: int
  IsStreaming :: bool

text \<open>
  The collaborators and build settings the methods use and this file does not define.
\<close>

record Env =
  MODEL_MAX_LODS :: nat
  MODEL_MAX_MESHES :: nat
  BUILD_RELEASE :: bool
  USE_EDITOR :: bool
  EnableModelSDF :: nat
  IsInMainThread :: bool
  IsVirtual :: "Model \<Rightarrow> bool"
  WaitForLoaded :: "Model \<Rightarrow> bool"
  HasStorage :: "Model \<Rightarrow> bool"
  IsInitialized :: "Model \<Rightarrow> bool"
  HasAnyLODInitialized :: "Model \<Rightarrow> bool"
  NewSlot :: MaterialSlot
  NewMesh :: Mesh
  NewLOD :: ModelLOD
  FormatMaterialName :: "int \<Rightarrow> String"
  LOD_Load :: "ModelLOD \<Rightarrow> stream \<Rightarrow> bool \<times> ModelLOD"
  LOD_Unload :: "ModelLOD \<Rightarrow> ModelLOD"
  LOD_Dispose :: "ModelLOD \<Rightarrow> ModelLOD"
  GetLODData :: "Model \<Rightarrow> int \<Rightarrow> stream option"
  RequestLODDataAsync :: "Model \<Rightarrow> int \<Rightarrow> bool"
  GenerateModelSDF :: "Model \<Rightarrow> f32 \<Rightarrow> int \<Rightarrow> bool \<Rightarrow> f32 \<Rightarrow> bool \<times> SDFData \<times> stream"
  CreateTexture :: "Model \<Rightarrow> nat"
  TextureInit :: "nat \<Rightarrow> ModelSDFHeader \<Rightarrow> bool"
  FloatLessEq :: "f32 \<Rightarrow> f32 \<Rightarrow> bool"
  sizeof_VB0ElementType :: "32 word"
  sizeof_VB1ElementType :: "32 word"
  sizeof_VB2ElementType :: "32 word"

text \<open>\<^verbatim>\<open>LOG(type, message)\<close>.\<close>

definition LOG :: "LogType \<Rightarrow> string \<Rightarrow> Model \<Rightarrow> Model" where
  "LOG t msg m = m\<lparr>Log := Log m @ [(t, msg)]\<rparr>"

text \<open>\<^verbatim>\<open>SAFE_DELETE_GPU_RESOURCE(SDF.Texture)\<close>: release the texture, null the pointer.\<close>

definition DeleteSDFTexture :: "Model \<Rightarrow> Model" where
  "DeleteSDFTexture m =
     (case Texture (SDF m) of
        None \<Rightarrow> m
      | Some t \<Rightarrow> m\<lparr>ReleasedTextures := ReleasedTextures m @ [t],
                     SDF := (SDF m)\<lparr>Texture := None\<rparr>\<rparr>)"

definition ReleaseChunk :: "nat \<Rightarrow> Model \<Rightarrow> Model" where
  "ReleaseChunk i m = m\<lparr>Chunks := (Chunks m)(i := None)\<rparr>"

text \<open>
  \<^verbatim>\<open>Array::Resize\<close>: the first elements are kept, new ones are default-constructed.
  (With \<^verbatim>\<open>preserveContents = false\<close> the container does not promise the kept
  elements' contents; the callers below overwrite them.)
\<close>

definition Resize :: "'a \<Rightarrow> nat \<Rightarrow> 'a list \<Rightarrow> 'a list" where
  "Resize dflt n xs = take n xs @ replicate (n - length xs) dflt"

text \<open>
  Modelled from the spec: \<^verbatim>\<open>HighestResidentLODIndex()\<close> (Model.h is not part of this
  file); the spec defines it as \<open>lods.length - residency\<close>.
\<close>

definition HighestResidentLODIndex :: "Model \<Rightarrow> int" where
  "HighestResidentLODIndex m = int (length (LODs m)) - loadedLODs m"

definition GetMaxResidency :: "Model \<Rightarrow> int" where
  "GetMaxResidency m = int (length (LODs m))"

definition GetCurrentResidency :: "Model \<Rightarrow> int" where
  "GetCurrentResidency m = loadedLODs m"

subsection \<open>\<^verbatim>\<open>Model::SetSDF\<close>\<close>

definition SetSDF :: "Model \<Rightarrow> SDFData \<Rightarrow> Model" where
  "SetSDF m sdf =
     (if Texture (SDF m) = Texture sdf then m
      else ReleaseChunk 15 ((DeleteSDFTexture m)\<lparr>SDF := sdf\<rparr>))"

subsection \<open>\<^verbatim>\<open>Model::GenerateSDF\<close>\<close>

definition GenerateSDF :: "Env \<Rightarrow> Model \<Rightarrow> f32 \<Rightarrow> int \<Rightarrow> bool \<Rightarrow> f32 \<Rightarrow> bool \<times> Model" where
  "GenerateSDF env m resolutionScale lodIndex cacheData backfacesThreshold =
     (if EnableModelSDF env = 2 then (True, m)
      else if \<not> HasAnyLODInitialized env m then (True, m)
      else if IsInMainThread env \<and> IsVirtual env m then
        (True, LOG Warning ''Cannot generate SDF for virtual models on a main thread.'' m)
      else
        let lodIndex' = Clamp lodIndex (HighestResidentLODIndex m) (int (length (LODs m)) - 1);
            cacheData' = (USE_EDITOR env \<and> cacheData \<and> HasStorage env m);
            (failed, sdf, sdfStream) =
              GenerateModelSDF env m resolutionScale lodIndex' cacheData' backfacesThreshold;
            m' = m\<lparr>SDF := sdf\<rparr>
        in if failed then (True, m')
           else if cacheData' then (False, m'\<lparr>Chunks := (Chunks m')(15 \<mapsto> sdfStream)\<rparr>)
           else (False, m'))"

subsection \<open>\<^verbatim>\<open>Model::SetupMaterialSlots\<close>\<close>

text \<open>The loop of \<^verbatim>\<open>ModelBase::SetupMaterialSlots\<close> that names the new slots.\<close>

fun InitSlotNames :: "Env \<Rightarrow> nat list \<Rightarrow> MaterialSlot list \<Rightarrow> MaterialSlot list" where
  "InitSlotNames env [] slots = slots"
| "InitSlotNames env (i # is) slots =
     InitSlotNames env is
       (slots[i := (slots ! i)\<lparr>Name := FormatMaterialName env (int i + 1)\<rparr>])"

text \<open>
  \<^verbatim>\<open>CHECK(slotsCount >= 0 && slotsCount < 4096)\<close> reports the failed check and
  returns from the base method only.
\<close>

definition ModelBase_SetupMaterialSlots :: "Env \<Rightarrow> Model \<Rightarrow> int \<Rightarrow> Model" where
  "ModelBase_SetupMaterialSlots env m slotsCount =
     (if \<not> (slotsCount \<ge> 0 \<and> slotsCount < 4096) then LOG Error ''Check failed'' m
      else if \<not> IsVirtual env m \<and> WaitForLoaded env m then m
      else
        let prevCount = length (MaterialSlots m);
            slots = Resize (NewSlot env) (nat slotsCount) (MaterialSlots m)
        in m\<lparr>MaterialSlots := InitSlotNames env [prevCount ..< nat slotsCount] slots\<rparr>)"

definition AdjustMesh :: "int \<Rightarrow> Mesh \<Rightarrow> Mesh" where
  "AdjustMesh slotsCount mesh =
     (if MaterialSlotIndex mesh \<ge> slotsCount
      then mesh\<lparr>MaterialSlotIndex := int32 (slotsCount - 1)\<rparr> else mesh)"

definition SetupMaterialSlots :: "Env \<Rightarrow> Model \<Rightarrow> int \<Rightarrow> Model" where
  "SetupMaterialSlots env m slotsCount =
     (let m' = ModelBase_SetupMaterialSlots env m slotsCount
      in m'\<lparr>LODs := map (\<lambda>lod. lod\<lparr>Meshes := map (AdjustMesh slotsCount) (Meshes lod)\<rparr>)
                         (LODs m')\<rparr>)"

subsection \<open>Streaming: \<^verbatim>\<open>StreamModelLODTask\<close> and \<^verbatim>\<open>Model::CreateStreamingTask\<close>\<close>

text \<open>
  \<^verbatim>\<open>StreamModelLODTask::Run\<close>. The asset is reached through a weak reference: \<open>None\<close>
  is an asset that no longer exists. The result \<open>True\<close> is the task's failure.
  \<^verbatim>\<open>LODs[_lodIndex]\<close> outside the array stops on the container's assertion.
  \<^verbatim>\<open>ModelLOD::Load\<close> works on the LOD in place, so the LOD it leaves is stored
  whether it failed or not.
\<close>

definition Run :: "Env \<Rightarrow> StreamModelLODTask \<Rightarrow> Model option \<Rightarrow> abort + bool \<times> Model option" where
  "Run env task asset =
     (case asset of
        None \<Rightarrow> Inr (True, None)
      | Some model \<Rightarrow>
          (case GetLODData env model (taskLodIndex task) of
             None \<Rightarrow> Inr (True, Some (LOG Warning ''Missing data chunk'' model))
           | Some data \<Rightarrow>
               if 0 \<le> taskLodIndex task \<and> taskLodIndex task < int (length (LODs model)) then
                 let i = nat (taskLodIndex task);
                     (failed, lod) = LOD_Load env (LODs model ! i) data;
                     model' = model\<lparr>LODs := (LODs model)[i := lod]\<rparr>
                 in if failed then Inr (True, Some (LOG Warning ''Cannot load LOD'' model'))
                    else Inr (False, Some (model'\<lparr>loadedLODs := loadedLODs model' + 1,
                                                   ResidencyChanged := Suc (ResidencyChanged model')\<rparr>))
               else Inl AssertFailed))"

text \<open>\<^verbatim>\<open>StreamModelLODTask::OnEnd\<close>: unlink the task from the asset, release the lock.\<close>

definition OnEnd :: "StreamModelLODTask \<Rightarrow> Model option \<Rightarrow> abort + Model option" where
  "OnEnd task asset =
     (case asset of
        None \<Rightarrow> Inr None
      | Some model \<Rightarrow>
          if streamingTask model = Some task
          then Inr (Some (model\<lparr>streamingTask := None, StorageLocks := StorageLocks model - 1\<rparr>))
          else Inl AssertFailed)"

text \<open>
  Modelled from the spec: the task framework (Engine/Threading is not part of this file)
  runs the task's work and then its completion hook, on success and on failure alike.
\<close>

definition Execute :: "Env \<Rightarrow> StreamModelLODTask \<Rightarrow> Model option \<Rightarrow> abort + bool \<times> Model option" where
  "Execute env task asset =
     (case Run env task asset of
        Inl e \<Rightarrow> Inl e
      | Inr (failed, asset') \<Rightarrow>
          (case OnEnd task asset' of Inl e \<Rightarrow> Inl e | Inr asset'' \<Rightarrow> Inr (failed, asset'')))"

text \<open>
  The loop \<^verbatim>\<open>for (i = HighestResidentLODIndex(); i < LODs.Count() - residency; i++)
  LODs[i].Unload();\<close> over the indices it visits.
\<close>

fun UnloadLODs :: "Env \<Rightarrow> int list \<Rightarrow> ModelLOD list \<Rightarrow> abort + ModelLOD list" where
  "UnloadLODs env [] lods = Inr lods"
| "UnloadLODs env (i # is) lods =
     (if 0 \<le> i \<and> i < int (length lods)
      then UnloadLODs env is (lods[nat i := LOD_Unload env (lods ! nat i)])
      else Inl AssertFailed)"

text \<open>
  \<^verbatim>\<open>Model::CreateStreamingTask\<close>. The result is the task handed to the caller
  (\<open>None\<close>: the null pointer) and the asset's new state.
\<close>

definition CreateStreamingTask :: "Env \<Rightarrow> Model \<Rightarrow> int \<Rightarrow> abort + Task option \<times> Model" where
  "CreateStreamingTask env m residency =
     (if \<not> (IsInitialized env m \<and> 0 \<le> residency \<and> residency \<le> int (length (LODs m))
             \<and> streamingTask m = None)
      then Inl AssertFailed
      else
        let lodCount = residency - GetCurrentResidency m in
        if lodCount > 0 then
          (if \<bar>lodCount\<bar> = 1 then
             let lodIndex = HighestResidentLODIndex m - 1;
                 requested = RequestLODDataAsync env m lodIndex;
                 task = \<lparr>taskLodIndex = lodIndex\<rparr>;
                 m' = m\<lparr>streamingTask := Some task, StorageLocks := StorageLocks m + 1\<rparr>
             in if requested then Inr (Some (ChunkReadTask lodIndex (UploadTask task)), m')
                else Inr (Some (UploadTask task), m')
           else Inl AssertFailed)
        else
          (case UnloadLODs env [HighestResidentLODIndex m .. int (length (LODs m)) - residency - 1]
                  (LODs m) of
             Inl e \<Rightarrow> Inl e
           | Inr lods \<Rightarrow>
               Inr (None, m\<lparr>LODs := lods, loadedLODs := residency,
                             ResidencyChanged := Suc (ResidencyChanged m)\<rparr>)))"

text \<open>
  \<^verbatim>\<open>_streamingTask->Cancel()\<close>. Modelled from the spec: cancelling runs the task's
  completion hook before it returns.
\<close>

definition CancelStreamingTasks :: "Model \<Rightarrow> abort + Model" where
  "CancelStreamingTasks m =
     (case streamingTask m of
        None \<Rightarrow> Inr m
      | Some task \<Rightarrow>
          (case OnEnd task (Some m) of
             Inr (Some m') \<Rightarrow> if streamingTask m' = None then Inr m' else Inl AssertFailed
           | Inr None \<Rightarrow> Inl AssertFailed
           | Inl e \<Rightarrow> Inl e))"

subsection \<open>\<^verbatim>\<open>Model::Init\<close> and \<^verbatim>\<open>Model::unload\<close>\<close>

definition BoundingBox_Zero :: BoundingBox where
  "BoundingBox_Zero = \<lparr>Minimum = (0, 0, 0), Maximum = (0, 0, 0)\<rparr>"

definition BoundingSphere_Empty :: BoundingSphere where
  "BoundingSphere_Empty = \<lparr>Center = (0, 0, 0), Radius = 0\<rparr>"

text \<open>The bit pattern of \<^verbatim>\<open>1.0f\<close>.\<close>

definition float_one :: f32 where
  "float_one = 1065353216"

text \<open>
  Modelled from the spec: \<^verbatim>\<open>StopStreaming\<close> and \<^verbatim>\<open>StartStreaming\<close>
  (Engine/Streaming is not part of this file) hand the asset to the streaming driver or
  take it away; neither touches the residency.
\<close>

definition StopStreaming :: "Model \<Rightarrow> Model" where
  "StopStreaming m = m\<lparr>IsStreaming := False\<rparr>"

definition StartStreaming :: "Model \<Rightarrow> Model" where
  "StartStreaming m = m\<lparr>IsStreaming := True\<rparr>"

text \<open>
  The loop of \<^verbatim>\<open>Model::Init\<close> that sets up the meshes of each LOD; the result
  \<open>True\<close> is its \<^verbatim>\<open>return true\<close>.
\<close>

fun InitLODs :: "Env \<Rightarrow> int list \<Rightarrow> nat \<Rightarrow> ModelLOD list \<Rightarrow> bool \<times> ModelLOD list" where
  "InitLODs env [] lodIndex lods = (False, lods)"
| "InitLODs env (meshesCount # rest) lodIndex lods =
     (let lod = (lods ! lodIndex)\<lparr>ScreenSize := float_one\<rparr> in
      if meshesCount \<le> 0 \<or> meshesCount > int (MODEL_MAX_MESHES env)
      then (True, lods[lodIndex := lod])
      else InitLODs env rest (Suc lodIndex)
             (lods[lodIndex := lod\<lparr>Meshes :=
                replicate (nat meshesCount) (Mesh_Init 0 BoundingBox_Zero BoundingSphere_Empty True)\<rparr>]))"

text \<open>
  \<^verbatim>\<open>Model::Init\<close>. The span of mesh counts is \<open>None\<close> when \<^verbatim>\<open>IsInvalid()\<close>.
\<close>

definition Init :: "Env \<Rightarrow> Model \<Rightarrow> int list option \<Rightarrow> bool \<times> Model" where
  "Init env m meshesCountPerLod =
     (case meshesCountPerLod of
        None \<Rightarrow> (True, LOG Error ''ArgumentOutOfRangeException'' m)
      | Some counts \<Rightarrow>
          if length counts > MODEL_MAX_LODS env
          then (True, LOG Error ''ArgumentOutOfRangeException'' m)
          else
            let m1 = StopStreaming m;
                m2 = m1\<lparr>MaterialSlots := Resize (NewSlot env) 1 (MaterialSlots m1),
                        MinScreenSize := 0\<rparr>;
                m3 = DeleteSDFTexture m2;
                lods = Resize (NewLOD env) (length counts) (map (LOD_Dispose env) (LODs m3));
                (failed, lods') = InitLODs env counts 0 lods;
                m4 = m3\<lparr>LODs := lods'\<rparr>
            in if failed then (True, m4)
               else (False, m4\<lparr>loadedLODs := int (length counts),
                                ResidencyChanged := Suc (ResidencyChanged m4)\<rparr>))"

definition SetupLODs :: "Env \<Rightarrow> Model \<Rightarrow> int list option \<Rightarrow> bool \<times> Model" where
  "SetupLODs env m meshesCountPerLod =
     (if \<not> IsVirtual env m
      then (True, LOG Error ''Only virtual models can be updated at runtime.'' m)
      else Init env m meshesCountPerLod)"

text \<open>\<^verbatim>\<open>Model::unload\<close>: the streaming task, if any, is cancelled and unlinked.\<close>

definition unload :: "Model \<Rightarrow> Model" where
  "unload m =
     (let m1 = (case streamingTask m of
                  None \<Rightarrow> m
                | Some task \<Rightarrow> m\<lparr>streamingTask := None, StorageLocks := StorageLocks m - 1\<rparr>)
      in (DeleteSDFTexture m1)\<lparr>MaterialSlots := [], LODs := [], loadedLODs := 0\<rparr>)"

subsection \<open>\<^verbatim>\<open>Model::load\<close>\<close>

datatype LoadResult = Ok | Failed | MissingDataChunk | InvalidData

text \<open>
  A part of \<^verbatim>\<open>load\<close> either goes on with the state it built and the rest of the
  stream, or makes \<^verbatim>\<open>load\<close> return a result, leaving the state built so far after
  logging some messages, or stops.
\<close>

datatype 'a flow =
    Continue 'a stream
  | Return LoadResult 'a "(LogType \<times> string) list"
  | Abort abort

text \<open>
  The loop over the material slots; the first argument counts the slots still to read,
  the second is \<^verbatim>\<open>materialSlotIndex\<close>.
\<close>

fun load_slots :: "nat \<Rightarrow> nat \<Rightarrow> MaterialSlot list \<Rightarrow> stream \<Rightarrow> MaterialSlot list flow" where
  "load_slots 0 i slots s = Continue slots s"
| "load_slots (Suc k) i slots s =
     (case ReadGuid s of
        Inl e \<Rightarrow> Abort e
      | Inr (materialId, s1) \<Rightarrow>
     (case ReadByte s1 of
        Inl e \<Rightarrow> Abort e
      | Inr (shadowsMode, s2) \<Rightarrow>
     (case ReadString 11 s2 of
        Inl e \<Rightarrow> Abort e
      | Inr (name, s3) \<Rightarrow>
          load_slots k (Suc i)
            (slots[i := (slots ! i)\<lparr>Material := materialId, ShadowsMode := shadowsMode,
                                      Name := name\<rparr>]) s3)))"

text \<open>
  The loop over the meshes of one LOD; the warning about an invalid material slot index
  is the message its \<open>Return\<close> carries.
\<close>

fun load_meshes :: "int \<Rightarrow> nat \<Rightarrow> nat \<Rightarrow> Mesh list \<Rightarrow> stream \<Rightarrow> Mesh list flow" where
  "load_meshes materialSlotsCount 0 meshIndex meshes s = Continue meshes s"
| "load_meshes materialSlotsCount (Suc k) meshIndex meshes s =
     (case ReadInt32 s of
        Inl e \<Rightarrow> Abort e
      | Inr (materialSlotIndex, s1) \<Rightarrow>
          if materialSlotIndex < 0 \<or> materialSlotIndex \<ge> materialSlotsCount
          then Return InvalidData meshes [(Warning, ''Invalid material slot index'')]
          else
     (case ReadBoundingBox s1 of
        Inl e \<Rightarrow> Abort e
      | Inr (box, s2) \<Rightarrow>
     (case ReadBoundingSphere s2 of
        Inl e \<Rightarrow> Abort e
      | Inr (sphere, s3) \<Rightarrow>
     (case ReadBool s3 of
        Inl e \<Rightarrow> Abort e
      | Inr (hasLightmapUVs, s4) \<Rightarrow>
          load_meshes materialSlotsCount k (Suc meshIndex)
            (meshes[meshIndex := Mesh_Init materialSlotIndex box sphere hasLightmapUVs]) s4))))"

text \<open>The loop over the LODs; the first counter is the number of LODs still to read.\<close>

fun load_lods :: "Env \<Rightarrow> int \<Rightarrow> nat \<Rightarrow> nat \<Rightarrow> ModelLOD list \<Rightarrow> stream \<Rightarrow> ModelLOD list flow" where
  "load_lods env materialSlotsCount 0 lodIndex lods s = Continue lods s"
| "load_lods env materialSlotsCount (Suc k) lodIndex lods s =
     (case ReadFloat s of
        Inl e \<Rightarrow> Abort e
      | Inr (screenSize, s1) \<Rightarrow>
     (case ReadUint16 s1 of
        Inl e \<Rightarrow> Abort e
      | Inr (meshesCount, s2) \<Rightarrow>
          let lods1 = lods[lodIndex := (lods ! lodIndex)\<lparr>ScreenSize := screenSize\<rparr>] in
          if meshesCount = 0 \<or> meshesCount > MODEL_MAX_MESHES env
          then Return InvalidData lods1 []
          else if lodIndex = 0 \<or> length (Meshes (lods1 ! 0)) \<ge> meshesCount then
            (case load_meshes materialSlotsCount meshesCount 0
                    (Resize (NewMesh env) meshesCount (Meshes (lods1 ! lodIndex))) s2 of
               Abort e \<Rightarrow> Abort e
             | Return r meshes msgs \<Rightarrow>
                 Return r (lods1[lodIndex := (lods1 ! lodIndex)\<lparr>Meshes := meshes\<rparr>]) msgs
             | Continue meshes s3 \<Rightarrow>
                 load_lods env materialSlotsCount k (Suc lodIndex)
                   (lods1[lodIndex := (lods1 ! lodIndex)\<lparr>Meshes := meshes\<rparr>]) s3)
          else Abort AssertFailed))"

text \<open>
  The header part of \<^verbatim>\<open>load\<close> (up to the end of the loop over the LODs), on the
  stream of chunk 0.
\<close>

definition load_header :: "Env \<Rightarrow> Model \<Rightarrow> stream \<Rightarrow> Model flow" where
  "load_header env m headerStream =
     (case ReadFloat headerStream of
        Inl e \<Rightarrow> Abort e
      | Inr (minScreenSize, s1) \<Rightarrow>
     (case ReadInt32 s1 of
        Inl e \<Rightarrow> Abort e
      | Inr (materialSlotsCount, s2) \<Rightarrow>
          let m1 = m\<lparr>MinScreenSize := minScreenSize\<rparr> in
          if materialSlotsCount \<le> 0 \<or> materialSlotsCount > 4096 then Return InvalidData m1 []
          else
     (case load_slots (nat materialSlotsCount) 0
             (Resize (NewSlot env) (nat materialSlotsCount) (MaterialSlots m1)) s2 of
        Abort e \<Rightarrow> Abort e
      | Return r slots msgs \<Rightarrow> Return r (m1\<lparr>MaterialSlots := slots\<rparr>) msgs
      | Continue slots s3 \<Rightarrow>
          let m2 = m1\<lparr>MaterialSlots := slots\<rparr> in
     (case ReadByte s3 of
        Inl e \<Rightarrow> Abort e
      | Inr (lods, s4) \<Rightarrow>
          if lods = 0 \<or> unat lods > MODEL_MAX_LODS env then Return InvalidData m2 []
          else
     (case load_lods env materialSlotsCount (unat lods) 0
             (Resize (NewLOD env) (unat lods) (LODs m2)) s4 of
        Abort e \<Rightarrow> Abort e
      | Return r lods' msgs \<Rightarrow> Return r (m2\<lparr>LODs := lods'\<rparr>) msgs
      | Continue lods' s5 \<Rightarrow> Continue (m2\<lparr>LODs := lods'\<rparr>) s5)))))"

text \<open>
  The loop over the mips of a version 1 SDF chunk: each mip is a header and
  \<^verbatim>\<open>SlicePitch\<close> bytes, handed to an upload task that holds a storage lock.
\<close>

fun load_sdf_mips :: "nat \<Rightarrow> Model \<Rightarrow> stream \<Rightarrow> abort + Model" where
  "load_sdf_mips 0 m s = Inr m"
| "load_sdf_mips (Suc k) m (SDFMipItem mipData # Bytes mipBytes # s) =
     (if int (length mipBytes) = SlicePitch mipData
      then load_sdf_mips k
             (m\<lparr>StartedMipTasks := StartedMipTasks m @ [(mipData, mipBytes)],
                StorageLocks := StorageLocks m + 1\<rparr>) s
      else Inl StreamFault)"
| "load_sdf_mips (Suc k) m s = Inl StreamFault"

text \<open>
  The SDF part of \<^verbatim>\<open>load\<close>. Chunk 15 is given when it exists and is loaded.
\<close>

definition load_sdf :: "Env \<Rightarrow> Model \<Rightarrow> Model flow" where
  "load_sdf env m =
     (case Chunks m 15 of
        None \<Rightarrow> Continue m []
      | Some sdfStream \<Rightarrow>
          if EnableModelSDF env = 1 then
            (case ReadInt32 sdfStream of
               Inl e \<Rightarrow> Abort e
             | Inr (version, s1) \<Rightarrow>
                 if version = 1 then
                   (case s1 of
                      SDFHeaderItem data # s2 \<Rightarrow>
                        let texture = (case Texture (SDF m) of
                                         Some t \<Rightarrow> t | None \<Rightarrow> CreateTexture env m);
                            m1 = m\<lparr>SDF := (SDF m)\<lparr>Texture := Some texture\<rparr>\<rparr>
                        in if TextureInit env texture data then Return Failed m1 []
                           else
                             (case load_sdf_mips (nat (hMipLevels data))
                                     (m1\<lparr>SDF := (SDF m1)\<lparr>
                                          LocalToUVWMul := hLocalToUVWMul data,
                                          LocalToUVWAdd := hLocalToUVWAdd data,
                                          WorldUnitsPerVoxel := hWorldUnitsPerVoxel data,
                                          MaxDistance := hMaxDistance data,
                                          LocalBoundsMin := hLocalBoundsMin data,
                                          LocalBoundsMax := hLocalBoundsMax data,
                                          ResolutionScale := hResolutionScale data,
                                          LOD := hLOD data\<rparr>\<rparr>) s2 of
                                Inl e \<Rightarrow> Abort e
                              | Inr m2 \<Rightarrow> Continue m2 [])
                    | _ \<Rightarrow> Abort StreamFault)
                 else Continue (LOG Warning ''Unknown SDF data version'' m) [])
          else Continue m [])"

text \<open>The check of the LODs' screen sizes, compiled in unless \<^verbatim>\<open>BUILD_RELEASE\<close>.\<close>

fun ValidateLODs :: "Env \<Rightarrow> nat list \<Rightarrow> Model \<Rightarrow> Model" where
  "ValidateLODs env [] m = m"
| "ValidateLODs env (lodIndex # rest) m =
     ValidateLODs env rest
       (if FloatLessEq env (ScreenSize (LODs m ! (lodIndex - 1))) (ScreenSize (LODs m ! lodIndex))
        then LOG Warning ''Model LOD has invalid screen size'' m else m)"

definition load :: "Env \<Rightarrow> Model \<Rightarrow> abort + LoadResult \<times> Model" where
  "load env m =
     (case Chunks m 0 of
        None \<Rightarrow> Inr (MissingDataChunk, m)
      | Some headerStream \<Rightarrow>
     (case load_header env m headerStream of
        Abort e \<Rightarrow> Inl e
      | Return r m1 msgs \<Rightarrow> Inr (r, m1\<lparr>Log := Log m1 @ msgs\<rparr>)
      | Continue m1 rest \<Rightarrow>
     (case load_sdf env m1 of
        Abort e \<Rightarrow> Inl e
      | Return r m2 msgs \<Rightarrow> Inr (r, m2\<lparr>Log := Log m2 @ msgs\<rparr>)
      | Continue m2 rest' \<Rightarrow>
          let m3 = (if BUILD_RELEASE env then m2
                    else ValidateLODs env [1 ..< length (LODs m2)] m2)
          in Inr (Ok, StartStreaming m3))))"

subsection \<open>\<^verbatim>\<open>Model::Save\<close>: the header stream\<close>

text \<open>
  The items \<^verbatim>\<open>Save\<close> writes to \<^verbatim>\<open>headerStream\<close>, which becomes chunk 0.
  \<^verbatim>\<open>WriteByte(lods)\<close> and \<^verbatim>\<open>WriteUint16(meshes)\<close> narrow an \<^verbatim>\<open>int32\<close> count.
\<close>

definition WriteSlot :: "MaterialSlot \<Rightarrow> stream" where
  "WriteSlot slot = [GuidItem (Material slot), Byte (ShadowsMode slot), StringItem 11 (Name slot)]"

definition WriteMesh :: "Mesh \<Rightarrow> stream" where
  "WriteMesh mesh =
     [Int32 (word_of_int (MaterialSlotIndex mesh)), BoxItem (Box mesh), SphereItem (Sphere mesh),
      Bool (HasLightmapUVs mesh)]"

definition WriteLOD :: "ModelLOD \<Rightarrow> stream" where
  "WriteLOD lod =
     [Float (ScreenSize lod), Uint16 (of_nat (length (Meshes lod)))]
     @ concat (map WriteMesh (Meshes lod))"

definition Save_header :: "Model \<Rightarrow> stream" where
  "Save_header m =
     [Float (MinScreenSize m), Int32 (of_nat (length (MaterialSlots m)))]
     @ concat (map WriteSlot (MaterialSlots m))
     @ [Byte (of_nat (length (LODs m)))]
     @ concat (map WriteLOD (LODs m))"

subsection \<open>\<^verbatim>\<open>Model::Save\<close>: mesh data read back from the GPU\<close>

text \<open>
  The buffers downloaded for one mesh (\<^verbatim>\<open>struct MeshData\<close>); a container that
  holds no data is \<open>None\<close>.
\<close>

record MeshData =
  VB0 :: "byte list option"
  VB1 :: "byte list option"
  VB2 :: "byte list option"
  IB :: "byte list option"

text \<open>
  How a part of \<^verbatim>\<open>Save\<close> ends: with the items it wrote, with \<^verbatim>\<open>return true\<close>
  after logging some messages, or stopped.
\<close>

datatype 'a saved =
    Done 'a
  | Fail "(LogType \<times> string) list"
  | Stop abort

definition BytesLength :: "byte list option \<Rightarrow> 32 word" where
  "BytesLength c = (case c of None \<Rightarrow> 0 | Some bs \<Rightarrow> of_nat (length bs))"

definition BytesGet :: "byte list option \<Rightarrow> byte list" where
  "BytesGet c = (case c of None \<Rightarrow> [] | Some bs \<Rightarrow> bs)"

text \<open>
  \<^verbatim>\<open>((const int32*)data)[i]\<close>: the 32-bit element at position \<open>i\<close> of a buffer of
  bytes, little-endian as the spec gives the chunk layout.
\<close>

definition Int32At :: "byte list \<Rightarrow> nat \<Rightarrow> 32 word" where
  "Int32At bs i =
     ucast (bs ! (4 * i)) + 256 * ucast (bs ! (4 * i + 1)) + 65536 * ucast (bs ! (4 * i + 2))
     + 16777216 * ucast (bs ! (4 * i + 3))"

text \<open>The items written before the index buffer of a mesh.\<close>

definition MeshDataHead :: "Env \<Rightarrow> Mesh \<Rightarrow> MeshData \<Rightarrow> stream" where
  "MeshDataHead env mesh meshData =
     [Uint32 (VertexCount mesh), Uint32 (TriangleCount mesh),
      Bytes (take (unat (VertexCount mesh * sizeof_VB0ElementType env)) (BytesGet (VB0 meshData))),
      Bytes (take (unat (VertexCount mesh * sizeof_VB1ElementType env)) (BytesGet (VB1 meshData))),
      Bool (VB2 meshData \<noteq> None)]
     @ (if VB2 meshData \<noteq> None
        then [Bytes (take (unat (VertexCount mesh * sizeof_VB2ElementType env))
                       (BytesGet (VB2 meshData)))]
        else [])"

text \<open>
  One turn of the loop that encodes the meshes of a LOD into \<^verbatim>\<open>meshesStream\<close>.
  All sizes are \<^verbatim>\<open>uint32\<close>: products wrap, comparisons are unsigned.
\<close>

definition Save_mesh :: "Env \<Rightarrow> Mesh \<Rightarrow> MeshData \<Rightarrow> stream saved" where
  "Save_mesh env mesh meshData =
     (let vertices = VertexCount mesh;
          triangles = TriangleCount mesh;
          hasColors = (VB2 meshData \<noteq> None);
          vb0Size = vertices * sizeof_VB0ElementType env;
          vb1Size = vertices * sizeof_VB1ElementType env;
          vb2Size = vertices * sizeof_VB2ElementType env;
          indicesCount = triangles * 3;
          shouldUse16BitIndexBuffer = (indicesCount \<le> 65535);
          use16BitIndexBuffer = Use16BitIndexBuffer mesh;
          ibSize = indicesCount * (if use16BitIndexBuffer then 2 else 4)
      in if vertices = 0 \<or> triangles = 0
         then Fail [(Warning, ''Cannot save model with empty meshes.'')]
         else if BytesLength (VB0 meshData) < vb0Size
         then Fail [(Warning, ''Invalid vertex buffer 0 size.'')]
         else if BytesLength (VB1 meshData) < vb1Size
         then Fail [(Warning, ''Invalid vertex buffer 1 size.'')]
         else if hasColors \<and> BytesLength (VB2 meshData) < vb2Size
         then Fail [(Warning, ''Invalid vertex buffer 2 size.'')]
         else if BytesLength (IB meshData) < ibSize
         then Fail [(Warning, ''Invalid index buffer size.'')]
         else if shouldUse16BitIndexBuffer = use16BitIndexBuffer
         then Done (MeshDataHead env mesh meshData
                    @ [Bytes (take (unat ibSize) (BytesGet (IB meshData)))])
         else if shouldUse16BitIndexBuffer
         then Done (MeshDataHead env mesh meshData
                    @ map (\<lambda>i. Uint16 (ucast (Int32At (BytesGet (IB meshData)) i)))
                        [0 ..< unat indicesCount])
         else Stop Crashed)"

fun Save_meshes :: "Env \<Rightarrow> (Mesh \<times> MeshData) list \<Rightarrow> stream \<Rightarrow> stream saved" where
  "Save_meshes env [] meshesStream = Done meshesStream"
| "Save_meshes env ((mesh, meshData) # rest) meshesStream =
     (case Save_mesh env mesh meshData of
        Done items \<Rightarrow> Save_meshes env rest (meshesStream @ items)
      | Fail msgs \<Rightarrow> Fail msgs
      | Stop e \<Rightarrow> Stop e)"

text \<open>
  Modelled from the spec: \<^verbatim>\<open>Mesh::DownloadDataGPUAsync\<close> (Mesh.cpp is not part of
  this file) reads back the contents of a GPU buffer; there is no task for a buffer that
  does not exist. Buffers 0 and 1 and the index buffer are required.
\<close>

definition DownloadMeshData :: "Mesh \<Rightarrow> MeshData option" where
  "DownloadMeshData mesh =
     (if VertexBuffer0 mesh = None \<or> VertexBuffer1 mesh = None \<or> IndexBuffer mesh = None
      then None
      else Some \<lparr>VB0 = VertexBuffer0 mesh, VB1 = VertexBuffer1 mesh, VB2 = VertexBuffer2 mesh,
                 IB = IndexBuffer mesh\<rparr>)"

fun DownloadLOD :: "Mesh list \<Rightarrow> (Mesh \<times> MeshData) list option" where
  "DownloadLOD [] = Some []"
| "DownloadLOD (mesh # rest) =
     (case DownloadMeshData mesh of
        None \<Rightarrow> None
      | Some meshData \<Rightarrow>
          (case DownloadLOD rest of None \<Rightarrow> None | Some ds \<Rightarrow> Some ((mesh, meshData) # ds)))"

text \<open>The data chunk of one LOD, as \<^verbatim>\<open>Save\<close> with \<^verbatim>\<open>withMeshDataFromGpu\<close> builds it.\<close>

definition Save_lod :: "Env \<Rightarrow> ModelLOD \<Rightarrow> stream saved" where
  "Save_lod env lod =
     (case DownloadLOD (Meshes lod) of
        None \<Rightarrow> Fail []
      | Some meshesData \<Rightarrow> Save_meshes env meshesData [])"

subsection \<open>A concrete environment and concrete assets\<close>

text \<open>
  One implementation of the collaborators, used to run the definitions: a LOD is loaded
  by creating the buffers of its meshes (and fails on an empty chunk), unloaded by
  dropping them; the data of LOD \<open>i\<close> is chunk \<open>i + 1\<close>.
\<close>

definition sample_Load :: "ModelLOD \<Rightarrow> stream \<Rightarrow> bool \<times> ModelLOD" where
  "sample_Load lod data =
     (if data = [] then (True, lod)
      else (False, lod\<lparr>Meshes := map (\<lambda>mesh. mesh\<lparr>VertexCount := 3, TriangleCount := 1,
                                          VertexBuffer0 := Some [], VertexBuffer1 := Some [],
                                          IndexBuffer := Some []\<rparr>) (Meshes lod)\<rparr>))"

definition sample_Unload :: "ModelLOD \<Rightarrow> ModelLOD" where
  "sample_Unload lod =
     lod\<lparr>Meshes := map (\<lambda>mesh. mesh\<lparr>VertexCount := 0, TriangleCount := 0,
                            VertexBuffer0 := None, VertexBuffer1 := None,
                            VertexBuffer2 := None, IndexBuffer := None\<rparr>) (Meshes lod)\<rparr>"

definition sample_env :: Env where
  "sample_env =
     \<lparr>MODEL_MAX_LODS = 6, MODEL_MAX_MESHES = 4096, BUILD_RELEASE = False, USE_EDITOR = True,
      EnableModelSDF = 1, IsInMainThread = False,
      IsVirtual = (\<lambda>m. False), WaitForLoaded = (\<lambda>m. False), HasStorage = (\<lambda>m. True),
      IsInitialized = (\<lambda>m. LODs m \<noteq> []),
      HasAnyLODInitialized = (\<lambda>m. 0 < loadedLODs m),
      NewSlot = \<lparr>Material = 0, ShadowsMode = 0, Name = []\<rparr>,
      NewMesh = Mesh_Init 0 BoundingBox_Zero BoundingSphere_Empty False,
      NewLOD = \<lparr>ScreenSize = float_one, Meshes = []\<rparr>,
      FormatMaterialName = (\<lambda>i. []),
      LOD_Load = sample_Load, LOD_Unload = sample_Unload, LOD_Dispose = sample_Unload,
      GetLODData = (\<lambda>m i. Chunks m (nat i + 1)),
      RequestLODDataAsync = (\<lambda>m i. False),
      GenerateModelSDF = (\<lambda>m resolutionScale i cacheData threshold.
                            (False, (SDF m)\<lparr>ResolutionScale := resolutionScale, LOD := i\<rparr>, [])),
      CreateTexture = (\<lambda>m. 1), TextureInit = (\<lambda>t data. False),
      FloatLessEq = (\<lambda>a b. a \<le> b),
      sizeof_VB0ElementType = 12, sizeof_VB1ElementType = 16, sizeof_VB2ElementType = 4\<rparr>"

text \<open>The asset as constructed: nothing loaded, no chunk.\<close>

definition new_model :: Model where
  "new_model =
     \<lparr>MinScreenSize = 0, MaterialSlots = [], LODs = [], loadedLODs = 0, streamingTask = None,
      SDF = \<lparr>Texture = None, LocalToUVWMul = (0, 0, 0), LocalToUVWAdd = (0, 0, 0),
             WorldUnitsPerVoxel = 0, MaxDistance = 0, LocalBoundsMin = (0, 0, 0),
             LocalBoundsMax = (0, 0, 0), ResolutionScale = 0, LOD = 0\<rparr>,
      Chunks = (\<lambda>i. None), Log = [], ResidencyChanged = 0, ReleasedTextures = [],
      StartedMipTasks = [], StorageLocks = 0, IsStreaming = False\<rparr>"

definition sample_mesh :: "int \<Rightarrow> Mesh" where
  "sample_mesh i = Mesh_Init i BoundingBox_Zero BoundingSphere_Empty True"

definition sample_lod :: ModelLOD where
  "sample_lod = \<lparr>ScreenSize = float_one, Meshes = [sample_mesh 0]\<rparr>"

text \<open>An asset with three LODs, all of them resident, and an asset with none resident.\<close>

definition resident_model :: Model where
  "resident_model =
     new_model\<lparr>MaterialSlots := [\<lparr>Material = 0, ShadowsMode = 0, Name = []\<rparr>],
               LODs := map (\<lambda>lod. snd (sample_Load lod [Bytes []]))
                          [sample_lod, sample_lod, sample_lod],
               loadedLODs := 3\<rparr>"

definition streamed_model :: Model where
  "streamed_model =
     new_model\<lparr>MaterialSlots := [\<lparr>Material = 0, ShadowsMode = 0, Name = []\<rparr>],
               LODs := [sample_lod, sample_lod, sample_lod],
               Chunks := (\<lambda>i. if i = 3 then Some [Bytes []] else None)\<rparr>"

text \<open>Assets for the SDF and material slot operations.\<close>

definition sdf_model :: Model where
  "sdf_model =
     resident_model\<lparr>SDF := (SDF new_model)\<lparr>Texture := Some 7, MaxDistance := 1\<rparr>,
                    Chunks := (\<lambda>i. if i = 15 then Some [Int32 1] else None)\<rparr>"

definition other_sdf :: SDFData where
  "other_sdf = (SDF new_model)\<lparr>Texture := Some 7, MaxDistance := 2, ResolutionScale := 5\<rparr>"

definition slots_model :: Model where
  "slots_model =
     new_model\<lparr>LODs := [\<lparr>ScreenSize = float_one,
                          Meshes = [sample_mesh 0, sample_mesh 5, sample_mesh 2]\<rparr>]\<rparr>"

subsection \<open>The residency invariant\<close>

definition residency_inv :: "Model \<Rightarrow> bool" where
  "residency_inv m = (0 \<le> GetCurrentResidency m \<and> GetCurrentResidency m \<le> GetMaxResidency m)"

text \<open>The environment of a virtual asset, one built at runtime by \<^verbatim>\<open>SetupLODs\<close>.\<close>

definition virtual_env :: Env where
  "virtual_env = sample_env\<lparr>IsVirtual := (\<lambda>m. True)\<rparr>"

text \<open>The same asset when the chunk store holds no chunk of it.\<close>

definition unchunked_model :: Model where
  "unchunked_model = streamed_model\<lparr>Chunks := (\<lambda>i. None)\<rparr>"

text \<open>
  Meshes with their downloaded buffers: one triangle stored with 16-bit indices, one
  triangle stored with 32-bit indices, and 21846 triangles (65538 indices) stored with
  16-bit indices.
\<close>

definition plain_mesh :: Mesh where
  "plain_mesh = (sample_mesh 0)\<lparr>VertexCount := 3, TriangleCount := 1,
                                Use16BitIndexBuffer := True\<rparr>"

definition plain_data :: MeshData where
  "plain_data = \<lparr>VB0 = Some (replicate 36 0), VB1 = Some (replicate 48 0), VB2 = None,
                 IB = Some [0, 0, 1, 0, 2, 0, 9, 9]\<rparr>"

definition narrow_mesh :: Mesh where
  "narrow_mesh = (sample_mesh 0)\<lparr>VertexCount := 3, TriangleCount := 1,
                                 Use16BitIndexBuffer := False\<rparr>"

definition narrow_data :: MeshData where
  "narrow_data = \<lparr>VB0 = Some (replicate 36 0), VB1 = Some (replicate 48 0), VB2 = None,
                  IB = Some [1, 0, 0, 0, 2, 0, 0, 0, 0, 1, 0, 0]\<rparr>"

definition wide_mesh :: Mesh where
  "wide_mesh = (sample_mesh 0)\<lparr>VertexCount := 3, TriangleCount := 21846,
                               Use16BitIndexBuffer := True\<rparr>"

definition wide_data :: MeshData where
  "wide_data = \<lparr>VB0 = Some (replicate 36 0), VB1 = Some (replicate 48 0), VB2 = None,
                IB = Some (replicate 131076 0)\<rparr>"

subsection \<open>What a header holds\<close>

text \<open>
  The part of a mesh and of a LOD that the header chunk stores, and the conditions that
  \<^verbatim>\<open>load\<close> checks on a header: between 1 and 4096 material slots, between 1 and
  \<^verbatim>\<open>MODEL_MAX_LODS\<close> LODs (a count that fits the byte it is stored in), in every LOD
  between 1 and \<^verbatim>\<open>MODEL_MAX_MESHES\<close> meshes (a count that fits 16 bits) and no more
  than LOD 0 has, and in every mesh a material slot index inside the slot table.
\<close>

definition HeaderMesh :: "Mesh \<Rightarrow> Mesh" where
  "HeaderMesh x = Mesh_Init (MaterialSlotIndex x) (Box x) (Sphere x) (HasLightmapUVs x)"

definition HeaderLOD :: "ModelLOD \<Rightarrow> ModelLOD" where
  "HeaderLOD x = \<lparr>ScreenSize = ScreenSize x, Meshes = map HeaderMesh (Meshes x)\<rparr>"

definition mesh_ok :: "int \<Rightarrow> Mesh \<Rightarrow> bool" where
  "mesh_ok materialSlotsCount x =
     (0 \<le> MaterialSlotIndex x \<and> MaterialSlotIndex x < materialSlotsCount)"

definition lod_ok :: "Env \<Rightarrow> int \<Rightarrow> ModelLOD \<Rightarrow> bool" where
  "lod_ok env materialSlotsCount x =
     (0 < length (Meshes x) \<and> length (Meshes x) \<le> MODEL_MAX_MESHES env
      \<and> length (Meshes x) < 65536 \<and> list_all (mesh_ok materialSlotsCount) (Meshes x))"

definition header_valid :: "Env \<Rightarrow> Model \<Rightarrow> bool" where
  "header_valid env m =
     (0 < length (MaterialSlots m) \<and> length (MaterialSlots m) \<le> 4096
      \<and> 0 < length (LODs m) \<and> length (LODs m) \<le> MODEL_MAX_LODS env \<and> length (LODs m) < 256
      \<and> list_all (lod_ok env (int (length (MaterialSlots m)))) (LODs m)
      \<and> list_all (\<lambda>x. length (Meshes x) \<le> length (Meshes (hd (LODs m)))) (LODs m))"

text \<open>The listed fields of two headers agree.\<close>

definition same_header :: "Model \<Rightarrow> Model \<Rightarrow> bool" where
  "same_header a b =
     (MinScreenSize a = MinScreenSize b
      \<and> length (MaterialSlots a) = length (MaterialSlots b)
      \<and> map Name (MaterialSlots a) = map Name (MaterialSlots b)
      \<and> map ShadowsMode (MaterialSlots a) = map ShadowsMode (MaterialSlots b)
      \<and> map Material (MaterialSlots a) = map Material (MaterialSlots b)
      \<and> length (LODs a) = length (LODs b)
      \<and> map ScreenSize (LODs a) = map ScreenSize (LODs b)
      \<and> map (\<lambda>lod. length (Meshes lod)) (LODs a) = map (\<lambda>lod. length (Meshes lod)) (LODs b)
      \<and> map (\<lambda>lod. map MaterialSlotIndex (Meshes lod)) (LODs a)
          = map (\<lambda>lod. map MaterialSlotIndex (Meshes lod)) (LODs b)
      \<and> map (\<lambda>lod. map Box (Meshes lod)) (LODs a) = map (\<lambda>lod. map Box (Meshes lod)) (LODs b)
      \<and> map (\<lambda>lod. map Sphere (Meshes lod)) (LODs a)
          = map (\<lambda>lod. map Sphere (Meshes lod)) (LODs b)
      \<and> map (\<lambda>lod. map HasLightmapUVs (Meshes lod)) (LODs a)
          = map (\<lambda>lod. map HasLightmapUVs (Meshes lod)) (LODs b))"

text \<open>
  Header chunks: one slot and one LOD with one mesh; and one slot and two LODs, the
  second with the mesh count 0. An asset whose SDF chunk has the version tag 2.
\<close>

definition good_header :: stream where
  "good_header =
     [Float 0, Int32 1, GuidItem 0, Byte 0, StringItem 11 [],
      Byte 1,
      Float float_one, Uint16 1,
      Int32 0, BoxItem BoundingBox_Zero, SphereItem BoundingSphere_Empty, Bool True]"

definition bad_header :: stream where
  "bad_header =
     [Float 0, Int32 1, GuidItem 0, Byte 0, StringItem 11 [],
      Byte 2,
      Float float_one, Uint16 1,
      Int32 0, BoxItem BoundingBox_Zero, SphereItem BoundingSphere_Empty, Bool True,
      Float 0, Uint16 0]"

definition bad_header_model :: Model where
  "bad_header_model = new_model\<lparr>Chunks := (\<lambda>i. if i = 0 then Some bad_header else None)\<rparr>"

definition sdf_v2_model :: Model where
  "sdf_v2_model =
     new_model\<lparr>Chunks := (\<lambda>i. if i = 0 then Some good_header
                               else if i = 15 then Some [Int32 2] else None)\<rparr>"

text \<open>An asset whose header chunk is the first of these headers.\<close>

definition good_header_model :: Model where
  "good_header_model = new_model\<lparr>Chunks := (\<lambda>i. if i = 0 then Some good_header else None)\<rparr>"

text \<open>
  The header stream up to the LOD count, as \<^verbatim>\<open>Save\<close> lays it out, with any byte as
  the LOD count.
\<close>

definition HeaderPrefix :: "f32 \<Rightarrow> MaterialSlot list \<Rightarrow> byte \<Rightarrow> stream" where
  "HeaderPrefix f slots b =
     Float f # Int32 (of_nat (length slots)) # concat (map WriteSlot slots) @ [Byte b]"

text \<open>
  Assets whose header chunk has the slot count 0, the LOD count 0, and a mesh with the
  material slot index 5 next to a single slot.
\<close>

definition sample_slot :: MaterialSlot where
  "sample_slot = \<lparr>Material = 0, ShadowsMode = 0, Name = []\<rparr>"

definition zero_slots_model :: Model where
  "zero_slots_model =
     new_model\<lparr>Chunks := (\<lambda>i. if i = 0 then Some [Float 0, Int32 0] else None)\<rparr>"

definition zero_lods_model :: Model where
  "zero_lods_model =
     new_model\<lparr>Chunks := (\<lambda>i. if i = 0 then Some (HeaderPrefix 0 [sample_slot] 0) else None)\<rparr>"

definition bad_index_model :: Model where
  "bad_index_model =
     new_model\<lparr>Chunks := (\<lambda>i. if i = 0
                               then Some (HeaderPrefix 0 [sample_slot] 1
                                          @ [Float float_one, Uint16 1, Int32 5])
                               else None)\<rparr>"

text \<open>
  A loader that builds the buffers of the meshes and then fails when the chunk holds more
  than the mesh data: the LOD it leaves holds buffers although the load failed. An asset
  with three LODs, the last two resident, whose chunk of LOD 0 is of that kind.
\<close>

definition partial_Load :: "ModelLOD \<Rightarrow> stream \<Rightarrow> bool \<times> ModelLOD" where
  "partial_Load lod data =
     (if data = [] then (True, lod) else (tl data \<noteq> [], snd (sample_Load lod data)))"

definition partial_env :: Env where
  "partial_env = sample_env\<lparr>LOD_Load := partial_Load\<rparr>"

definition two_resident_model :: Model where
  "two_resident_model =
     new_model\<lparr>MaterialSlots := [sample_slot],
               LODs := [sample_lod, snd (sample_Load sample_lod [Bytes []]),
                        snd (sample_Load sample_lod [Bytes []])],
               loadedLODs := 2,
               Chunks := (\<lambda>i. if i = 1 then Some [Bytes [], Bytes []] else None)\<rparr>"

section \<open>Properties\<close>

subsection \<open>Arithmetic helpers\<close>

lemma int32_id: "is_int32 x \<Longrightarrow> int32 x = x"
  by (simp add: int32_def is_int32_def)

lemma Clamp_range: "lo \<le> hi \<Longrightarrow> lo \<le> Clamp v lo hi \<and> Clamp v lo hi \<le> hi"
  by (simp add: Clamp_def)

subsection \<open>\<^verbatim>\<open>SetSDF\<close>\<close>

text \<open>
  Claim C10. When \<^verbatim>\<open>SetSDF\<close> is given SDF data whose texture handle is the asset's
  current one, the call changes nothing: the state after the call is the state before
  it, so no SDF field is replaced (whatever the other fields of the argument are), no
  texture is released and chunk 15 is not released.
\<close>

theorem SetSDF_same_texture_noop:
  "Texture sdf = Texture (SDF m) \<Longrightarrow> SetSDF m sdf = m"
  by (simp add: SetSDF_def)

theorem SetSDF_same_texture_noop_witness:
  "Texture other_sdf = Texture (SDF sdf_model) \<and> other_sdf \<noteq> SDF sdf_model \<and>
   SetSDF sdf_model other_sdf = sdf_model \<and>
   MaxDistance (SDF (SetSDF sdf_model other_sdf)) = 1 \<and>
   ReleasedTextures (SetSDF sdf_model other_sdf) = [] \<and>
   Chunks (SetSDF sdf_model other_sdf) 15 = Some [Int32 1]"
proof -
  have h: "Texture other_sdf = Texture (SDF sdf_model)"
    by (simp add: other_sdf_def sdf_model_def new_model_def resident_model_def)
  have d: "other_sdf \<noteq> SDF sdf_model"
  proof
    assume "other_sdf = SDF sdf_model"
    then have "MaxDistance other_sdf = MaxDistance (SDF sdf_model)" by simp
    then show False
      by (simp add: other_sdf_def sdf_model_def new_model_def resident_model_def)
  qed
  have e: "SetSDF sdf_model other_sdf = sdf_model"
    using SetSDF_same_texture_noop [OF h] .
  show ?thesis
    unfolding e using h d
    by (simp add: sdf_model_def new_model_def resident_model_def)
qed

subsection \<open>\<^verbatim>\<open>SetupMaterialSlots\<close>\<close>

lemma ModelBase_SetupMaterialSlots_LODs:
  "LODs (ModelBase_SetupMaterialSlots env m slotsCount) = LODs m"
  by (simp add: ModelBase_SetupMaterialSlots_def LOG_def Let_def)

lemma AdjustMesh_index:
  assumes "is_int32 slotsCount" and "slotsCount \<noteq> - 2147483648"
  shows "MaterialSlotIndex (AdjustMesh slotsCount mesh) =
           (if MaterialSlotIndex mesh \<ge> slotsCount then slotsCount - 1
            else MaterialSlotIndex mesh)"
proof -
  have "is_int32 (slotsCount - 1)"
    using assms by (simp add: is_int32_def)
  then show ?thesis
    by (simp add: AdjustMesh_def int32_id)
qed

text \<open>
  Claim C9, as amended. After \<^verbatim>\<open>SetupMaterialSlots(slotsCount)\<close> the LODs and their meshes are
  the same in number, every mesh whose material slot index was at least
  \<open>slotsCount\<close> points to \<open>slotsCount - 1\<close>, every other mesh keeps its index, and so
  every index is below \<open>slotsCount\<close>. The argument is any \<^verbatim>\<open>int32\<close> but the least
  one, where \<open>slotsCount - 1\<close> overflows (undefined in C++).
\<close>

theorem SetupMaterialSlots_repoints_meshes:
  assumes "is_int32 slotsCount" and "slotsCount \<noteq> - 2147483648"
  shows "length (LODs (SetupMaterialSlots env m slotsCount)) = length (LODs m) \<and>
         (\<forall>i < length (LODs m).
            length (Meshes (LODs (SetupMaterialSlots env m slotsCount) ! i))
              = length (Meshes (LODs m ! i)) \<and>
            (\<forall>j < length (Meshes (LODs m ! i)).
               MaterialSlotIndex (Meshes (LODs (SetupMaterialSlots env m slotsCount) ! i) ! j) =
                 (if MaterialSlotIndex (Meshes (LODs m ! i) ! j) \<ge> slotsCount
                  then slotsCount - 1
                  else MaterialSlotIndex (Meshes (LODs m ! i) ! j)) \<and>
               MaterialSlotIndex (Meshes (LODs (SetupMaterialSlots env m slotsCount) ! i) ! j)
                 < slotsCount))"
  using assms
  by (simp add: SetupMaterialSlots_def Let_def ModelBase_SetupMaterialSlots_LODs
      AdjustMesh_index)

theorem SetupMaterialSlots_repoints_meshes_witness:
  "is_int32 2 \<and> (2::int) \<noteq> - 2147483648 \<and>
   map (\<lambda>lod. map MaterialSlotIndex (Meshes lod)) (LODs slots_model) = [[0, 5, 2]] \<and>
   map (\<lambda>lod. map MaterialSlotIndex (Meshes lod))
     (LODs (SetupMaterialSlots sample_env slots_model 2)) = [[0, 1, 1]]"
proof -
  have h1: "is_int32 2" by (simp add: is_int32_def)
  have h2: "(2::int) \<noteq> - 2147483648" by simp
  have l: "length (LODs slots_model) = 1" "length (Meshes (LODs slots_model ! 0)) = 3"
    by (simp_all add: slots_model_def new_model_def)
  note t = SetupMaterialSlots_repoints_meshes [OF h1 h2, of sample_env slots_model]
  from t l have n: "length (LODs (SetupMaterialSlots sample_env slots_model 2)) = 1"
    "length (Meshes (LODs (SetupMaterialSlots sample_env slots_model 2) ! 0)) = 3"
    by simp_all
  have old: "map (\<lambda>lod. map MaterialSlotIndex (Meshes lod)) (LODs slots_model) = [[0, 5, 2]]"
    by (simp add: slots_model_def new_model_def sample_mesh_def Mesh_Init_def)
  have new: "map (\<lambda>lod. map MaterialSlotIndex (Meshes lod))
     (LODs (SetupMaterialSlots sample_env slots_model 2)) = [[0, 1, 1]]"
    by (simp add: SetupMaterialSlots_def ModelBase_SetupMaterialSlots_def sample_env_def
        slots_model_def new_model_def sample_mesh_def Mesh_Init_def AdjustMesh_def int32_def
        Let_def Resize_def)
  show ?thesis using h1 h2 old new n by simp
qed

text \<open>
  Claim C9 as stated fails at the least \<^verbatim>\<open>int32\<close>: every index is at least
  \<open>slotsCount\<close>, so every mesh is re-pointed to \<open>slotsCount - 1\<close>, which wraps to the
  greatest \<^verbatim>\<open>int32\<close> and is not below \<open>slotsCount\<close>.
\<close>

theorem SetupMaterialSlots_least_int32_wraps:
  "is_int32 (- 2147483648) \<and>
   map (\<lambda>lod. map MaterialSlotIndex (Meshes lod)) (LODs slots_model) = [[0, 5, 2]] \<and>
   map (\<lambda>lod. map MaterialSlotIndex (Meshes lod))
     (LODs (SetupMaterialSlots sample_env slots_model (- 2147483648)))
     = [[2147483647, 2147483647, 2147483647]] \<and>
   \<not> (2147483647 < (- 2147483648 :: int))"
  by (simp add: is_int32_def SetupMaterialSlots_def ModelBase_SetupMaterialSlots_def
      sample_env_def slots_model_def new_model_def sample_mesh_def Mesh_Init_def
      AdjustMesh_def int32_def LOG_def Let_def)

subsection \<open>\<^verbatim>\<open>GenerateSDF\<close>\<close>

text \<open>
  Claim C8. \<^verbatim>\<open>GenerateSDF\<close> fails when the SDF feature is disabled for the process
  (\<^verbatim>\<open>EnableModelSDF == 2\<close>) and when no LOD is initialized, both without touching
  the asset. Otherwise (and off the main thread for a virtual asset) it calls the
  generator with the requested LOD index clamped to the range from the highest resident
  LOD index to the last LOD, and fails exactly when the generator fails. With at least
  one LOD resident the clamped index lies in that range: an index inside the range is
  passed as it is, one below it becomes the highest resident index, one above it the
  last index.
\<close>

theorem GenerateSDF_failures_and_clamp:
  "(EnableModelSDF env = 2 \<longrightarrow> GenerateSDF env m rs lodIndex cd bt = (True, m)) \<and>
   (\<not> HasAnyLODInitialized env m \<longrightarrow> GenerateSDF env m rs lodIndex cd bt = (True, m)) \<and>
   (EnableModelSDF env \<noteq> 2 \<and> HasAnyLODInitialized env m
      \<and> \<not> (IsInMainThread env \<and> IsVirtual env m) \<longrightarrow>
      (let c = Clamp lodIndex (HighestResidentLODIndex m) (int (length (LODs m)) - 1);
           r = GenerateModelSDF env m rs c (USE_EDITOR env \<and> cd \<and> HasStorage env m) bt
       in fst (GenerateSDF env m rs lodIndex cd bt) = fst r \<and>
          SDF (snd (GenerateSDF env m rs lodIndex cd bt)) = fst (snd r) \<and>
          (1 \<le> loadedLODs m \<longrightarrow>
             HighestResidentLODIndex m \<le> c \<and> c \<le> int (length (LODs m)) - 1 \<and>
             (lodIndex < HighestResidentLODIndex m \<longrightarrow> c = HighestResidentLODIndex m) \<and>
             (int (length (LODs m)) - 1 < lodIndex \<longrightarrow> c = int (length (LODs m)) - 1)) \<and>
          (HighestResidentLODIndex m \<le> lodIndex \<and> lodIndex \<le> int (length (LODs m)) - 1
             \<longrightarrow> c = lodIndex)))"
  by (auto simp: GenerateSDF_def Let_def LOG_def Clamp_def HighestResidentLODIndex_def
      split: prod.splits)

theorem GenerateSDF_failures_and_clamp_witness:
  "EnableModelSDF (sample_env\<lparr>EnableModelSDF := 2\<rparr>) = 2 \<and>
   GenerateSDF (sample_env\<lparr>EnableModelSDF := 2\<rparr>) resident_model 0 7 False 0
     = (True, resident_model) \<and>
   \<not> HasAnyLODInitialized sample_env new_model \<and>
   GenerateSDF sample_env new_model 0 7 False 0 = (True, new_model) \<and>
   EnableModelSDF sample_env \<noteq> 2 \<and> HasAnyLODInitialized sample_env resident_model \<and>
   \<not> (IsInMainThread sample_env \<and> IsVirtual sample_env resident_model) \<and>
   1 \<le> loadedLODs resident_model \<and>
   HighestResidentLODIndex resident_model = 0 \<and> int (length (LODs resident_model)) - 1 = 2 \<and>
   \<not> fst (GenerateSDF sample_env resident_model 0 7 False 0) \<and>
   LOD (SDF (snd (GenerateSDF sample_env resident_model 0 7 False 0))) = 2 \<and>
   LOD (SDF (snd (GenerateSDF sample_env resident_model 0 1 False 0))) = 1 \<and>
   LOD (SDF (snd (GenerateSDF sample_env resident_model 0 (- 4) False 0))) = 0"
proof -
  have d: "GenerateSDF (sample_env\<lparr>EnableModelSDF := 2\<rparr>) resident_model 0 7 False 0
            = (True, resident_model)"
    using GenerateSDF_failures_and_clamp
      [of "sample_env\<lparr>EnableModelSDF := 2\<rparr>" resident_model 0 7 False 0]
    by (simp add: sample_env_def)
  have n: "GenerateSDF sample_env new_model 0 7 False 0 = (True, new_model)"
    using GenerateSDF_failures_and_clamp [of sample_env new_model 0 7 False 0]
    by (simp add: sample_env_def new_model_def)
  have g: "EnableModelSDF sample_env \<noteq> 2 \<and> HasAnyLODInitialized sample_env resident_model \<and>
           \<not> (IsInMainThread sample_env \<and> IsVirtual sample_env resident_model) \<and>
           1 \<le> loadedLODs resident_model \<and> HighestResidentLODIndex resident_model = 0 \<and>
           int (length (LODs resident_model)) - 1 = 2"
    by (simp add: sample_env_def resident_model_def new_model_def HighestResidentLODIndex_def)
  have c: "Clamp 7 0 2 = 2" "Clamp 1 0 2 = 1" "Clamp (- 4) 0 2 = 0"
    by (simp_all add: Clamp_def)
  have r: "\<And>i. GenerateModelSDF sample_env resident_model 0 i False 0
               = (False, (SDF resident_model)\<lparr>ResolutionScale := 0, LOD := i\<rparr>, [])"
    by (simp add: sample_env_def)
  have a: "\<not> fst (GenerateSDF sample_env resident_model 0 7 False 0) \<and>
           LOD (SDF (snd (GenerateSDF sample_env resident_model 0 7 False 0))) = 2"
    using GenerateSDF_failures_and_clamp [of sample_env resident_model 0 7 False 0] g
    by (simp add: Let_def c r)
  have b: "LOD (SDF (snd (GenerateSDF sample_env resident_model 0 1 False 0))) = 1"
    using GenerateSDF_failures_and_clamp [of sample_env resident_model 0 1 False 0] g
    by (simp add: Let_def c r)
  have e: "LOD (SDF (snd (GenerateSDF sample_env resident_model 0 (- 4) False 0))) = 0"
    using GenerateSDF_failures_and_clamp [of sample_env resident_model 0 "- 4" False 0] g
    by (simp add: Let_def c r)
  show ?thesis
    using d n g a b e by (simp add: sample_env_def new_model_def)
qed

subsection \<open>Downgrading the residency\<close>

lemma UnloadLODs_upto:
  "0 \<le> lo \<Longrightarrow> hi \<le> int (length lods) \<Longrightarrow>
   UnloadLODs env [lo .. hi - 1] lods =
     Inr (map (\<lambda>i. if lo \<le> int i \<and> int i < hi then LOD_Unload env (lods ! i) else lods ! i)
            [0 ..< length lods])"
proof (induction "nat (hi - lo)" arbitrary: lo lods)
  case 0
  then have "[lo .. hi - 1] = []" by simp
  moreover have "map (\<lambda>i. if lo \<le> int i \<and> int i < hi then LOD_Unload env (lods ! i) else lods ! i)
            [0 ..< length lods] = lods"
    using 0 by (intro nth_equalityI) auto
  ultimately show ?case by simp
next
  case (Suc n)
  then have lt: "lo < hi" by linarith
  then have up: "[lo .. hi - 1] = lo # [lo + 1 .. hi - 1]"
    by (simp add: upto_rec1)
  let ?lods = "lods[nat lo := LOD_Unload env (lods ! nat lo)]"
  have n: "n = nat (hi - (lo + 1))" using Suc.hyps(2) by linarith
  have ih: "UnloadLODs env [lo + 1 .. hi - 1] ?lods =
     Inr (map (\<lambda>i. if lo + 1 \<le> int i \<and> int i < hi then LOD_Unload env (?lods ! i) else ?lods ! i)
            [0 ..< length ?lods])"
    using Suc.hyps(1)[OF n, of ?lods] Suc.prems by simp
  have eq: "map (\<lambda>i. if lo + 1 \<le> int i \<and> int i < hi then LOD_Unload env (?lods ! i) else ?lods ! i)
            [0 ..< length ?lods] =
        map (\<lambda>i. if lo \<le> int i \<and> int i < hi then LOD_Unload env (lods ! i) else lods ! i)
            [0 ..< length lods]"
    using Suc.prems lt by (intro nth_equalityI) (auto simp: nth_list_update)
  have step: "UnloadLODs env (lo # [lo + 1 .. hi - 1]) lods
                = UnloadLODs env [lo + 1 .. hi - 1] ?lods"
    using Suc.prems lt by simp
  show ?case
    unfolding up step ih eq ..
qed

text \<open>
  Claim C3, as amended. A valid downgrade request on an asset whose residency is within
  its LOD count (the asset is initialized, no task is outstanding,
  \<open>0 \<le> target < residency \<le> lods.length\<close>) returns no task, sets the residency to the
  target, signals one residency change, and unloads exactly the LODs that leave the
  resident range, the indices from \<open>lods.length - residency\<close> up to
  \<open>lods.length - target - 1\<close>: every other LOD, those below the old resident range
  included, is left as it was.
\<close>

theorem CreateStreamingTask_downgrade:
  assumes "IsInitialized env m" and "0 \<le> residency" and "residency < loadedLODs m"
    and "loadedLODs m \<le> int (length (LODs m))" and "streamingTask m = None"
  shows "CreateStreamingTask env m residency =
           Inr (None, m\<lparr>LODs := map (\<lambda>i. if HighestResidentLODIndex m \<le> int i
                                              \<and> int i < int (length (LODs m)) - residency
                                           then LOD_Unload env (LODs m ! i) else LODs m ! i)
                                    [0 ..< length (LODs m)],
                        loadedLODs := residency,
                        ResidencyChanged := Suc (ResidencyChanged m)\<rparr>)"
proof -
  have lo: "0 \<le> HighestResidentLODIndex m"
    using assms by (simp add: HighestResidentLODIndex_def)
  have hi: "int (length (LODs m)) - residency \<le> int (length (LODs m))"
    using assms by simp
  note U = UnloadLODs_upto [OF lo hi, of env]
  show ?thesis
    using assms
    by (simp add: CreateStreamingTask_def GetCurrentResidency_def U)
qed

theorem CreateStreamingTask_downgrade_witness:
  "IsInitialized sample_env resident_model \<and> (0::int) \<le> 1 \<and> 1 < loadedLODs resident_model \<and>
   loadedLODs resident_model \<le> int (length (LODs resident_model)) \<and>
   streamingTask resident_model = None \<and>
   HighestResidentLODIndex resident_model = 0 \<and>
   map (\<lambda>lod. map IndexBuffer (Meshes lod)) (LODs resident_model)
     = [[Some []], [Some []], [Some []]] \<and>
   (case CreateStreamingTask sample_env resident_model 1 of
      Inl e \<Rightarrow> False
    | Inr (task, m') \<Rightarrow>
        task = None \<and> loadedLODs m' = 1 \<and> ResidencyChanged m' = 1 \<and>
        map (\<lambda>lod. map IndexBuffer (Meshes lod)) (LODs m') = [[None], [None], [Some []]])"
proof -
  have h: "IsInitialized sample_env resident_model" "(0::int) \<le> 1"
    "1 < loadedLODs resident_model"
    "loadedLODs resident_model \<le> int (length (LODs resident_model))"
    "streamingTask resident_model = None"
    by (simp_all add: sample_env_def resident_model_def new_model_def)
  have l: "[0 ..< length (LODs resident_model)] = [0, 1, 2]"
    by (simp add: resident_model_def new_model_def upt_rec)
  have r: "HighestResidentLODIndex resident_model = 0"
    by (simp add: HighestResidentLODIndex_def resident_model_def new_model_def)
  have b: "map (\<lambda>lod. map IndexBuffer (Meshes lod)) (LODs resident_model)
             = [[Some []], [Some []], [Some []]]"
    by (simp add: resident_model_def new_model_def sample_Load_def sample_lod_def)
  from CreateStreamingTask_downgrade [OF h]
  have "CreateStreamingTask sample_env resident_model 1 =
          Inr (None, resident_model\<lparr>LODs := map (\<lambda>i. if HighestResidentLODIndex resident_model \<le> int i
                                              \<and> int i < int (length (LODs resident_model)) - 1
                                           then LOD_Unload sample_env (LODs resident_model ! i)
                                           else LODs resident_model ! i)
                                    [0 ..< length (LODs resident_model)],
                        loadedLODs := 1,
                        ResidencyChanged := Suc (ResidencyChanged resident_model)\<rparr>)"
    by simp
  then have "case CreateStreamingTask sample_env resident_model 1 of
      Inl e \<Rightarrow> False
    | Inr (task, m') \<Rightarrow>
        task = None \<and> loadedLODs m' = 1 \<and> ResidencyChanged m' = 1 \<and>
        map (\<lambda>lod. map IndexBuffer (Meshes lod)) (LODs m') = [[None], [None], [Some []]]"
    by (simp add: l r)
       (simp add: resident_model_def new_model_def sample_env_def sample_Unload_def
          sample_Load_def sample_lod_def)
  then show ?thesis
    using h r b by simp
qed

subsection \<open>Upgrading the residency\<close>

lemma Run_cases:
  "Run env task (Some m) =
     (case GetLODData env m (taskLodIndex task) of
        None \<Rightarrow> Inr (True, Some (LOG Warning ''Missing data chunk'' m))
      | Some data \<Rightarrow>
          if 0 \<le> taskLodIndex task \<and> taskLodIndex task < int (length (LODs m)) then
            (if fst (LOD_Load env (LODs m ! nat (taskLodIndex task)) data)
             then Inr (True, Some (LOG Warning ''Cannot load LOD''
                        (m\<lparr>LODs := (LODs m)[nat (taskLodIndex task) :=
                              snd (LOD_Load env (LODs m ! nat (taskLodIndex task)) data)]\<rparr>)))
             else Inr (False, Some (m\<lparr>LODs := (LODs m)[nat (taskLodIndex task) :=
                              snd (LOD_Load env (LODs m ! nat (taskLodIndex task)) data)],
                          loadedLODs := loadedLODs m + 1,
                          ResidencyChanged := Suc (ResidencyChanged m)\<rparr>)))
          else Inl AssertFailed)"
  by (simp add: Run_def Let_def split: option.splits prod.splits)

lemma CreateStreamingTask_upgrade:
  assumes "CreateStreamingTask env m residency = Inr (Some t, m1)"
  shows "m1 = m\<lparr>streamingTask := Some \<lparr>taskLodIndex = HighestResidentLODIndex m - 1\<rparr>,
                 StorageLocks := StorageLocks m + 1\<rparr> \<and>
         residency = loadedLODs m + 1 \<and> residency \<le> int (length (LODs m)) \<and>
         streamingTask m = None \<and> IsInitialized env m \<and>
         (t = UploadTask \<lparr>taskLodIndex = HighestResidentLODIndex m - 1\<rparr> \<or>
          t = ChunkReadTask (HighestResidentLODIndex m - 1)
                (UploadTask \<lparr>taskLodIndex = HighestResidentLODIndex m - 1\<rparr>))"
  using assms
  by (auto simp: CreateStreamingTask_def GetCurrentResidency_def Let_def
      split: if_splits sum.splits)

text \<open>
  Claim C2. Take the upload task that an upgrade request creates and run it to its end
  (\<^verbatim>\<open>Run\<close>, then \<^verbatim>\<open>OnEnd\<close>). When the LOD's data chunk is missing, or the LOD
  fails to load, the task fails, the residency and the number of residency-changed
  notifications are what they were, every LOD other than the one being loaded (so every
  LOD that was resident) is what it was, and the log gains one warning and nothing
  else. Only when the LOD has loaded is the residency incremented and the notification
  sent, in the state that holds the loaded LOD. In both cases the asset's task pointer
  is cleared.
\<close>

theorem upgrade_task_commits_after_load:
  assumes create: "CreateStreamingTask env m residency = Inr (Some t, m1)"
    and nonneg: "0 \<le> loadedLODs m"
  shows "let task = \<lparr>taskLodIndex = HighestResidentLODIndex m - 1\<rparr> in
           streamingTask m1 = Some task \<and> LODs m1 = LODs m \<and> loadedLODs m1 = loadedLODs m \<and>
           (case Execute env task (Some m1) of
              Inr (failed, Some m2) \<Rightarrow>
                streamingTask m2 = None \<and> length (LODs m2) = length (LODs m) \<and>
                (case GetLODData env m1 (taskLodIndex task) of
                   None \<Rightarrow>
                     failed \<and> loadedLODs m2 = loadedLODs m \<and>
                     ResidencyChanged m2 = ResidencyChanged m \<and> LODs m2 = LODs m \<and>
                     Log m2 = Log m @ [(Warning, ''Missing data chunk'')]
                 | Some data \<Rightarrow>
                     if fst (LOD_Load env (LODs m ! nat (taskLodIndex task)) data)
                     then failed \<and> loadedLODs m2 = loadedLODs m \<and>
                          ResidencyChanged m2 = ResidencyChanged m \<and>
                          (\<forall>j < length (LODs m). int j \<noteq> taskLodIndex task
                               \<longrightarrow> LODs m2 ! j = LODs m ! j) \<and>
                          Log m2 = Log m @ [(Warning, ''Cannot load LOD'')]
                     else \<not> failed \<and> loadedLODs m2 = loadedLODs m + 1 \<and>
                          ResidencyChanged m2 = Suc (ResidencyChanged m) \<and>
                          LODs m2 = (LODs m)[nat (taskLodIndex task) :=
                                  snd (LOD_Load env (LODs m ! nat (taskLodIndex task)) data)] \<and>
                          Log m2 = Log m)
            | _ \<Rightarrow> False)"
proof -
  let ?task = "\<lparr>taskLodIndex = HighestResidentLODIndex m - 1\<rparr>"
  from CreateStreamingTask_upgrade[OF create]
  have m1: "m1 = m\<lparr>streamingTask := Some ?task, StorageLocks := StorageLocks m + 1\<rparr>"
    and res: "residency = loadedLODs m + 1" "residency \<le> int (length (LODs m))"
    by simp_all
  have range: "0 \<le> taskLodIndex ?task" "taskLodIndex ?task < int (length (LODs m1))"
    using res nonneg by (simp_all add: HighestResidentLODIndex_def m1)
  have f: "streamingTask m1 = Some ?task" "LODs m1 = LODs m" "loadedLODs m1 = loadedLODs m"
    "Log m1 = Log m" "ResidencyChanged m1 = ResidencyChanged m"
    by (simp_all add: m1)
  show ?thesis
  proof (cases "GetLODData env m1 (taskLodIndex ?task)")
    case None
    then have "Execute env ?task (Some m1) =
        Inr (True, Some ((LOG Warning ''Missing data chunk'' m1)\<lparr>streamingTask := None,
            StorageLocks := StorageLocks m1 - 1\<rparr>))"
      using f by (simp add: Execute_def Run_cases OnEnd_def LOG_def)
    then show ?thesis using None f
      by (simp add: LOG_def Let_def)
  next
    case (Some data)
    show ?thesis
    proof (cases "fst (LOD_Load env (LODs m ! nat (taskLodIndex ?task)) data)")
      case True
      then have "Execute env ?task (Some m1) =
        Inr (True, Some ((LOG Warning ''Cannot load LOD''
             (m1\<lparr>LODs := (LODs m1)[nat (taskLodIndex ?task) :=
                   snd (LOD_Load env (LODs m1 ! nat (taskLodIndex ?task)) data)]\<rparr>))
               \<lparr>streamingTask := None, StorageLocks := StorageLocks m1 - 1\<rparr>))"
        using f Some range by (simp add: Execute_def Run_cases OnEnd_def LOG_def)
      moreover have "\<And>j. int j \<noteq> HighestResidentLODIndex m - 1 \<Longrightarrow>
                          nat (HighestResidentLODIndex m - 1) \<noteq> j"
        using range by auto
      ultimately show ?thesis using Some True f
        by (simp add: LOG_def nth_list_update Let_def)
    next
      case False
      then have "Execute env ?task (Some m1) =
        Inr (False, Some (m1\<lparr>LODs := (LODs m1)[nat (taskLodIndex ?task) :=
                   snd (LOD_Load env (LODs m1 ! nat (taskLodIndex ?task)) data)],
                   loadedLODs := loadedLODs m1 + 1,
                   ResidencyChanged := Suc (ResidencyChanged m1),
                   streamingTask := None, StorageLocks := StorageLocks m1 - 1\<rparr>))"
        using f Some range by (simp add: Execute_def Run_cases OnEnd_def LOG_def)
      then show ?thesis using Some False f
        by (simp add: Let_def)
    qed
  qed
qed

theorem upgrade_task_commits_after_load_witness:
  "CreateStreamingTask sample_env streamed_model 1 =
     Inr (Some (UploadTask \<lparr>taskLodIndex = 2\<rparr>),
          streamed_model\<lparr>streamingTask := Some \<lparr>taskLodIndex = 2\<rparr>, StorageLocks := 1\<rparr>) \<and>
   0 \<le> loadedLODs streamed_model \<and>
   (case Execute sample_env \<lparr>taskLodIndex = 2\<rparr>
           (Some (streamed_model\<lparr>streamingTask := Some \<lparr>taskLodIndex = 2\<rparr>, StorageLocks := 1\<rparr>)) of
      Inr (failed, Some m2) \<Rightarrow>
        \<not> failed \<and> loadedLODs m2 = 1 \<and> ResidencyChanged m2 = 1 \<and> streamingTask m2 = None \<and>
        map (\<lambda>lod. map IndexBuffer (Meshes lod)) (LODs m2) = [[None], [None], [Some []]]
    | _ \<Rightarrow> False) \<and>
   CreateStreamingTask sample_env unchunked_model 1 =
     Inr (Some (UploadTask \<lparr>taskLodIndex = 2\<rparr>),
          unchunked_model\<lparr>streamingTask := Some \<lparr>taskLodIndex = 2\<rparr>, StorageLocks := 1\<rparr>) \<and>
   0 \<le> loadedLODs unchunked_model \<and>
   (case Execute sample_env \<lparr>taskLodIndex = 2\<rparr>
           (Some (unchunked_model\<lparr>streamingTask := Some \<lparr>taskLodIndex = 2\<rparr>, StorageLocks := 1\<rparr>)) of
      Inr (failed, Some m2) \<Rightarrow>
        failed \<and> loadedLODs m2 = 0 \<and> ResidencyChanged m2 = 0 \<and> streamingTask m2 = None \<and>
        LODs m2 = LODs unchunked_model \<and> Log m2 = [(Warning, ''Missing data chunk'')]
    | _ \<Rightarrow> False)"
proof -
  let ?t = "\<lparr>taskLodIndex = 2\<rparr>"
  let ?m1 = "streamed_model\<lparr>streamingTask := Some ?t, StorageLocks := 1\<rparr>"
  let ?u1 = "unchunked_model\<lparr>streamingTask := Some ?t, StorageLocks := 1\<rparr>"
  have c1: "CreateStreamingTask sample_env streamed_model 1 = Inr (Some (UploadTask ?t), ?m1)"
    by (simp add: CreateStreamingTask_def sample_env_def streamed_model_def new_model_def
        GetCurrentResidency_def HighestResidentLODIndex_def Let_def)
  have c2: "CreateStreamingTask sample_env unchunked_model 1 = Inr (Some (UploadTask ?t), ?u1)"
    by (simp add: CreateStreamingTask_def sample_env_def streamed_model_def new_model_def
        unchunked_model_def GetCurrentResidency_def HighestResidentLODIndex_def Let_def)
  have n1: "0 \<le> loadedLODs streamed_model" and n2: "0 \<le> loadedLODs unchunked_model"
    by (simp_all add: streamed_model_def unchunked_model_def new_model_def)
  have h1: "HighestResidentLODIndex streamed_model - 1 = 2"
    and h2: "HighestResidentLODIndex unchunked_model - 1 = 2"
    by (simp_all add: HighestResidentLODIndex_def streamed_model_def unchunked_model_def
        new_model_def)
  have g1: "GetLODData sample_env ?m1 2 = Some [Bytes []]"
    by (simp add: sample_env_def streamed_model_def new_model_def)
  have g2: "GetLODData sample_env ?u1 2 = None"
    by (simp add: sample_env_def unchunked_model_def streamed_model_def new_model_def)
  have r1: "case Execute sample_env ?t (Some ?m1) of
      Inr (failed, Some m2) \<Rightarrow>
        \<not> failed \<and> loadedLODs m2 = 1 \<and> ResidencyChanged m2 = 1 \<and> streamingTask m2 = None \<and>
        map (\<lambda>lod. map IndexBuffer (Meshes lod)) (LODs m2) = [[None], [None], [Some []]]
    | _ \<Rightarrow> False"
    using upgrade_task_commits_after_load [OF c1 n1] unfolding h1 Let_def
    apply (simp add: g1 split: sum.splits option.splits prod.splits)
    apply (simp add: sample_env_def streamed_model_def new_model_def sample_Load_def
        sample_lod_def sample_mesh_def Mesh_Init_def)
    done
  have r2: "case Execute sample_env ?t (Some ?u1) of
      Inr (failed, Some m2) \<Rightarrow>
        failed \<and> loadedLODs m2 = 0 \<and> ResidencyChanged m2 = 0 \<and> streamingTask m2 = None \<and>
        LODs m2 = LODs unchunked_model \<and> Log m2 = [(Warning, ''Missing data chunk'')]
    | _ \<Rightarrow> False"
    using upgrade_task_commits_after_load [OF c2 n2] unfolding h2 Let_def
    apply (simp add: g2 split: sum.splits option.splits prod.splits)
    apply (simp add: unchunked_model_def streamed_model_def new_model_def)
    done
  show ?thesis
    using c1 c2 n1 n2 r1 r2 by simp
qed

subsection \<open>Downgrade requests outside the amended claim\<close>

text \<open>
  Claim C3 as stated fails in two ways. First, on the asset that the failed
  \<^verbatim>\<open>SetupLODs([0])\<close> leaves with residency 3 and one LOD, the request for residency
  1 passes the entry check, and the loop starts at the LOD index -2: the call stops on
  the array's bounds assertion instead of returning. Second, with two of three LODs
  resident, the upload task of LOD 0 fails after the loader has built buffers; the
  residency stays 2, and the request for residency 1 then unloads LOD 1 only: LOD 0,
  outside the new resident range, keeps its buffers.
\<close>

theorem downgrade_aborts_or_skips_lower_lods:
  "(case SetupLODs virtual_env new_model (Some [1, 1, 1]) of
      (failed1, m1) \<Rightarrow>
        (case SetupLODs virtual_env m1 (Some [0]) of
           (failed2, m2) \<Rightarrow>
             IsInitialized virtual_env m2 \<and> streamingTask m2 = None \<and>
             GetCurrentResidency m2 = 3 \<and> GetMaxResidency m2 = 1 \<and>
             CreateStreamingTask virtual_env m2 1 = Inl AssertFailed)) \<and>
   GetCurrentResidency two_resident_model = 2 \<and> GetMaxResidency two_resident_model = 3 \<and>
   map (\<lambda>lod. map IndexBuffer (Meshes lod)) (LODs two_resident_model)
     = [[None], [Some []], [Some []]] \<and>
   (case CreateStreamingTask partial_env two_resident_model 3 of
      Inr (Some t, m1) \<Rightarrow>
        t = UploadTask \<lparr>taskLodIndex = 0\<rparr> \<and>
        (case Execute partial_env \<lparr>taskLodIndex = 0\<rparr> (Some m1) of
           Inr (failed, Some m2) \<Rightarrow>
             failed \<and> GetCurrentResidency m2 = 2 \<and> streamingTask m2 = None \<and>
             map (\<lambda>lod. map IndexBuffer (Meshes lod)) (LODs m2)
               = [[Some []], [Some []], [Some []]] \<and>
             (case CreateStreamingTask partial_env m2 1 of
                Inr (None, m3) \<Rightarrow>
                  GetCurrentResidency m3 = 1 \<and>
                  map (\<lambda>lod. map IndexBuffer (Meshes lod)) (LODs m3)
                    = [[Some []], [None], [Some []]]
              | _ \<Rightarrow> False)
         | _ \<Rightarrow> False)
    | _ \<Rightarrow> False)"
proof -
  have a: "case SetupLODs virtual_env new_model (Some [1, 1, 1]) of
      (failed1, m1) \<Rightarrow>
        (case SetupLODs virtual_env m1 (Some [0]) of
           (failed2, m2) \<Rightarrow>
             IsInitialized virtual_env m2 \<and> streamingTask m2 = None \<and>
             GetCurrentResidency m2 = 3 \<and> GetMaxResidency m2 = 1 \<and>
             CreateStreamingTask virtual_env m2 1 = Inl AssertFailed)"
    by (simp add: SetupLODs_def Init_def virtual_env_def sample_env_def new_model_def Let_def
      StopStreaming_def DeleteSDFTexture_def Resize_def CreateStreamingTask_def
      GetCurrentResidency_def GetMaxResidency_def HighestResidentLODIndex_def upto_rec1)
  let ?t = "\<lparr>taskLodIndex = 0\<rparr>"
  let ?m1 = "two_resident_model\<lparr>streamingTask := Some ?t, StorageLocks := 1\<rparr>"
  have c: "CreateStreamingTask partial_env two_resident_model 3 = Inr (Some (UploadTask ?t), ?m1)"
    by (simp add: CreateStreamingTask_def partial_env_def sample_env_def two_resident_model_def
        new_model_def GetCurrentResidency_def HighestResidentLODIndex_def Let_def)
  let ?m2 = "two_resident_model\<lparr>
               LODs := [snd (sample_Load sample_lod [Bytes [], Bytes []]),
                        snd (sample_Load sample_lod [Bytes []]),
                        snd (sample_Load sample_lod [Bytes []])],
               Log := [(Warning, ''Cannot load LOD'')], StorageLocks := 0\<rparr>"
  have e: "Execute partial_env ?t (Some ?m1) = Inr (True, Some ?m2)"
    by (simp add: Execute_def Run_cases OnEnd_def LOG_def partial_env_def sample_env_def
        two_resident_model_def new_model_def partial_Load_def)
  have b2: "map (\<lambda>lod. map IndexBuffer (Meshes lod)) (LODs ?m2)
               = [[Some []], [Some []], [Some []]]"
    by (simp add: two_resident_model_def new_model_def sample_Load_def sample_lod_def)
  have d: "case CreateStreamingTask partial_env ?m2 1 of
                Inr (None, m3) \<Rightarrow>
                  GetCurrentResidency m3 = 1 \<and>
                  map (\<lambda>lod. map IndexBuffer (Meshes lod)) (LODs m3)
                    = [[Some []], [None], [Some []]]
              | _ \<Rightarrow> False"
    by (simp add: CreateStreamingTask_def partial_env_def sample_env_def two_resident_model_def
        new_model_def GetCurrentResidency_def HighestResidentLODIndex_def Let_def
        sample_Load_def sample_Unload_def sample_lod_def upto_rec1)
  have s: "GetCurrentResidency two_resident_model = 2" "GetMaxResidency two_resident_model = 3"
    "map (\<lambda>lod. map IndexBuffer (Meshes lod)) (LODs two_resident_model)
     = [[None], [Some []], [Some []]]"
    "GetCurrentResidency ?m2 = 2" "streamingTask ?m2 = None"
    by (simp_all add: two_resident_model_def new_model_def GetCurrentResidency_def
        GetMaxResidency_def sample_Load_def sample_lod_def sample_mesh_def Mesh_Init_def)
  show ?thesis
    using a s b2 d by (simp add: c e)
qed

subsection \<open>Reading a header\<close>

text \<open>What a read returns fixes the first item of the stream.\<close>

lemma ReadFloat_Inr: "ReadFloat s = Inr (x, s') \<longleftrightarrow> s = Float x # s'"
  by (cases s rule: ReadFloat.cases) auto
lemma ReadInt32_Inr: "ReadInt32 s = Inr (v, s') \<longleftrightarrow> (\<exists>w. s = Int32 w # s' \<and> v = sint w)"
  by (cases s rule: ReadInt32.cases) auto
lemma ReadUint16_Inr: "ReadUint16 s = Inr (v, s') \<longleftrightarrow> (\<exists>w. s = Uint16 w # s' \<and> v = unat w)"
  by (cases s rule: ReadUint16.cases) auto
lemma ReadByte_Inr: "ReadByte s = Inr (b, s') \<longleftrightarrow> s = Byte b # s'"
  by (cases s rule: ReadByte.cases) auto
lemma ReadBool_Inr: "ReadBool s = Inr (b, s') \<longleftrightarrow> s = Bool b # s'"
  by (cases s rule: ReadBool.cases) auto
lemma ReadGuid_Inr: "ReadGuid s = Inr (g, s') \<longleftrightarrow> s = GuidItem g # s'"
  by (cases s rule: ReadGuid.cases) auto
lemma ReadString_Inr: "ReadString lock s = Inr (x, s') \<longleftrightarrow> s = StringItem lock x # s'"
  by (cases "(lock, s)" rule: ReadString.cases) auto
lemma ReadBoundingBox_Inr: "ReadBoundingBox s = Inr (b, s') \<longleftrightarrow> s = BoxItem b # s'"
  by (cases s rule: ReadBoundingBox.cases) auto
lemma ReadBoundingSphere_Inr: "ReadBoundingSphere s = Inr (b, s') \<longleftrightarrow> s = SphereItem b # s'"
  by (cases s rule: ReadBoundingSphere.cases) auto

lemmas Read_Inr = ReadFloat_Inr ReadInt32_Inr ReadUint16_Inr ReadByte_Inr ReadBool_Inr
  ReadGuid_Inr ReadString_Inr ReadBoundingBox_Inr ReadBoundingSphere_Inr

text \<open>
  The loops of \<^verbatim>\<open>load\<close> against the writers of \<^verbatim>\<open>Save\<close>: a loop that goes on
  has read exactly what the writer writes for the elements it stored (decode), and it
  reads back what the writer wrote (encode).
\<close>

lemma take_Suc_update: "i < length xs \<Longrightarrow> take (Suc i) (xs[i := x]) = take i xs @ [x]"
  by (simp add: take_Suc_conv_app_nth)

lemma load_slots_decode:
  "load_slots k i slots s = Continue slots' rest \<Longrightarrow> i + k \<le> length slots \<Longrightarrow>
   \<exists>xs. length xs = k \<and> slots' = take i slots @ xs @ drop (i + k) slots \<and>
        s = concat (map WriteSlot xs) @ rest"
proof (induction k arbitrary: i slots s)
  case 0
  then show ?case by simp
next
  case (Suc k)
  from Suc.prems(1) obtain g b name s3 where
    s: "s = GuidItem g # Byte b # StringItem 11 name # s3"
    and rec: "load_slots k (Suc i)
                (slots[i := (slots ! i)\<lparr>Material := g, ShadowsMode := b, Name := name\<rparr>]) s3
              = Continue slots' rest"
    by (auto simp: Read_Inr split: sum.splits prod.splits)
  let ?x = "(slots ! i)\<lparr>Material := g, ShadowsMode := b, Name := name\<rparr>"
  from Suc.IH[OF rec] Suc.prems(2) obtain xs where
    xs: "length xs = k" "slots' = take (Suc i) (slots[i := ?x]) @ xs @ drop (Suc i + k) (slots[i := ?x])"
      "s3 = concat (map WriteSlot xs) @ rest"
    by auto
  have "slots' = take i slots @ (?x # xs) @ drop (i + Suc k) slots"
    using xs(2) Suc.prems(2) by (simp add: take_Suc_update)
  moreover have "s = concat (map WriteSlot (?x # xs)) @ rest"
    by (simp add: s xs(3) WriteSlot_def)
  ultimately show ?case
    using xs(1) by (intro exI[of _ "?x # xs"]) simp
qed

lemma load_slots_no_Return: "load_slots k i slots s \<noteq> Return r x msgs"
  by (induction k arbitrary: i slots s) (auto split: sum.splits prod.splits)

lemma slot_eta: "(y::MaterialSlot)\<lparr>Material := Material x, ShadowsMode := ShadowsMode x, Name := Name x\<rparr> = x"
  by (cases x, cases y) simp

lemma load_slots_encode:
  "i + length xs \<le> length slots \<Longrightarrow>
   load_slots (length xs) i slots (concat (map WriteSlot xs) @ rest)
     = Continue (take i slots @ xs @ drop (i + length xs) slots) rest"
proof (induction xs arbitrary: i slots)
  case Nil
  then show ?case by simp
next
  case (Cons x xs)
  have "load_slots (length (x # xs)) i slots (concat (map WriteSlot (x # xs)) @ rest)
        = load_slots (length xs) (Suc i) (slots[i := x]) (concat (map WriteSlot xs) @ rest)"
    by (simp add: WriteSlot_def slot_eta)
  also have "\<dots> = Continue (take (Suc i) (slots[i := x]) @ xs @ drop (Suc i + length xs) (slots[i := x])) rest"
    using Cons.prems by (intro Cons.IH) simp
  also have "take (Suc i) (slots[i := x]) @ xs @ drop (Suc i + length xs) (slots[i := x])
             = take i slots @ (x # xs) @ drop (i + length (x # xs)) slots"
    using Cons.prems by (simp add: take_Suc_update)
  finally show ?case .
qed


lemma sint_word_of_int_32: "0 \<le> i \<Longrightarrow> i < 2147483648 \<Longrightarrow> sint (word_of_int i :: 32 word) = i"
  by (simp add: int_word_sint)

lemma load_meshes_Return: "load_meshes cnt k i ms s = Return r ms' msgs \<Longrightarrow> r = InvalidData"
  by (induction k arbitrary: i ms s) (auto split: sum.splits prod.splits if_splits)

lemma load_meshes_decode:
  "load_meshes cnt k i ms s = Continue ms' rest \<Longrightarrow> i + k \<le> length ms \<Longrightarrow>
   \<exists>xs. length xs = k \<and> ms' = take i ms @ xs @ drop (i + k) ms \<and>
        s = concat (map WriteMesh xs) @ rest \<and> list_all (mesh_ok cnt) xs \<and>
        map HeaderMesh xs = xs"
proof (induction k arbitrary: i ms s)
  case 0
  then show ?case by simp
next
  case (Suc k)
  from Suc.prems(1) obtain w box sphere uv s4 where
    s: "s = Int32 w # BoxItem box # SphereItem sphere # Bool uv # s4"
    and ok: "0 \<le> sint w" "sint w < cnt"
    and rec: "load_meshes cnt k (Suc i) (ms[i := Mesh_Init (sint w) box sphere uv]) s4
              = Continue ms' rest"
    by (auto simp: Read_Inr split: sum.splits prod.splits if_splits)
  let ?x = "Mesh_Init (sint w) box sphere uv"
  from Suc.IH[OF rec] Suc.prems(2) obtain xs where
    xs: "length xs = k" "ms' = take (Suc i) (ms[i := ?x]) @ xs @ drop (Suc i + k) (ms[i := ?x])"
      "s4 = concat (map WriteMesh xs) @ rest" "list_all (mesh_ok cnt) xs" "map HeaderMesh xs = xs"
    by auto
  have "ms' = take i ms @ (?x # xs) @ drop (i + Suc k) ms"
    using xs(2) Suc.prems(2) by (simp add: take_Suc_update)
  moreover have "s = concat (map WriteMesh (?x # xs)) @ rest"
    by (simp add: s xs(3) WriteMesh_def Mesh_Init_def)
  moreover have "list_all (mesh_ok cnt) (?x # xs)"
    using ok xs(4) by (simp add: mesh_ok_def Mesh_Init_def)
  moreover have "map HeaderMesh (?x # xs) = ?x # xs"
    using xs(5) by (simp add: HeaderMesh_def Mesh_Init_def)
  ultimately show ?case
    using xs(1) by (intro exI[of _ "?x # xs"]) simp
qed

lemma load_meshes_encode:
  "list_all (mesh_ok cnt) xs \<Longrightarrow> cnt \<le> 2147483648 \<Longrightarrow> i + length xs \<le> length ms \<Longrightarrow>
   load_meshes cnt (length xs) i ms (concat (map WriteMesh xs) @ rest)
     = Continue (take i ms @ map HeaderMesh xs @ drop (i + length xs) ms) rest"
proof (induction xs arbitrary: i ms)
  case Nil
  then show ?case by simp
next
  case (Cons x xs)
  have idx: "0 \<le> MaterialSlotIndex x" "MaterialSlotIndex x < cnt"
    using Cons.prems(1) by (simp_all add: mesh_ok_def)
  then have rd: "sint (word_of_int (MaterialSlotIndex x) :: 32 word) = MaterialSlotIndex x"
    using Cons.prems(2) by (intro sint_word_of_int_32) auto
  have "load_meshes cnt (length (x # xs)) i ms (concat (map WriteMesh (x # xs)) @ rest)
        = load_meshes cnt (length xs) (Suc i) (ms[i := HeaderMesh x])
            (concat (map WriteMesh xs) @ rest)"
    using idx by (simp add: WriteMesh_def rd HeaderMesh_def)
  also have "\<dots> = Continue (take (Suc i) (ms[i := HeaderMesh x]) @ map HeaderMesh xs
                              @ drop (Suc i + length xs) (ms[i := HeaderMesh x])) rest"
    using Cons.prems by (intro Cons.IH) simp_all
  also have "take (Suc i) (ms[i := HeaderMesh x]) @ map HeaderMesh xs
               @ drop (Suc i + length xs) (ms[i := HeaderMesh x])
             = take i ms @ map HeaderMesh (x # xs) @ drop (i + length (x # xs)) ms"
    using Cons.prems by (simp add: take_Suc_update)
  finally show ?case .
qed


lemma length_Resize [simp]: "length (Resize d n xs) = n"
  by (simp add: Resize_def)

lemma load_lods_Return:
  "load_lods env cnt k i lods s = Return r lods' msgs \<Longrightarrow> r = InvalidData"
  by (induction k arbitrary: i lods s)
     (auto simp: Let_def dest: load_meshes_Return split: sum.splits prod.splits if_splits flow.splits)

lemma lod_update_all: "(y::ModelLOD)\<lparr>ScreenSize := a, Meshes := b\<rparr> = \<lparr>ScreenSize = a, Meshes = b\<rparr>"
  by (cases y) simp

lemma load_lods_step:
  assumes "i < length lods"
  shows "load_lods env cnt (Suc k) i lods (Float ss # Uint16 w # s2) =
     (if unat w = 0 \<or> unat w > MODEL_MAX_MESHES env
      then Return InvalidData (lods[i := (lods ! i)\<lparr>ScreenSize := ss\<rparr>]) []
      else if i = 0 \<or> length (Meshes (lods ! 0)) \<ge> unat w then
        (case load_meshes cnt (unat w) 0 (Resize (NewMesh env) (unat w) (Meshes (lods ! i))) s2 of
           Abort e \<Rightarrow> Abort e
         | Return r meshes msgs \<Rightarrow> Return r (lods[i := \<lparr>ScreenSize = ss, Meshes = meshes\<rparr>]) msgs
         | Continue meshes s3 \<Rightarrow>
             load_lods env cnt k (Suc i) (lods[i := \<lparr>ScreenSize = ss, Meshes = meshes\<rparr>]) s3)
      else Abort AssertFailed)"
  using assms
  by (auto simp: Let_def lod_update_all nth_list_update split: flow.splits)

lemma load_lods_shape:
  assumes "load_lods env cnt (Suc k) i lods s = Continue lods' rest"
  shows "\<exists>ss w s2. s = Float ss # Uint16 w # s2"
  using assms by (auto simp: Read_Inr split: sum.splits prod.splits)

lemma load_lods_decode:
  "load_lods env cnt k i lods s = Continue lods' rest \<Longrightarrow> i + k \<le> length lods \<Longrightarrow>
   \<exists>xs. length xs = k \<and> lods' = take i lods @ xs @ drop (i + k) lods \<and>
        s = concat (map WriteLOD xs) @ rest \<and> list_all (lod_ok env cnt) xs \<and>
        map HeaderLOD xs = xs \<and>
        list_all (\<lambda>x. length (Meshes x) \<le> length (Meshes (if i = 0 then hd xs else lods ! 0))) xs"
proof (induction k arbitrary: i lods s)
  case 0
  then show ?case by simp
next
  case (Suc k)
  have il: "i < length lods" using Suc.prems(2) by simp
  from load_lods_shape[OF Suc.prems(1)] obtain ss w s2 where s: "s = Float ss # Uint16 w # s2"
    by blast
  note step = Suc.prems(1)[unfolded s load_lods_step[OF il]]
  from step have w: "unat w \<noteq> 0" "unat w \<le> MODEL_MAX_MESHES env"
    and asrt: "i = 0 \<or> length (Meshes (lods ! 0)) \<ge> unat w"
    by (auto split: if_splits)
  from step w asrt obtain meshes s3 where
    lm: "load_meshes cnt (unat w) 0 (Resize (NewMesh env) (unat w) (Meshes (lods ! i))) s2
           = Continue meshes s3"
    and rec: "load_lods env cnt k (Suc i) (lods[i := \<lparr>ScreenSize = ss, Meshes = meshes\<rparr>]) s3
           = Continue lods' rest"
    by (auto split: if_splits flow.splits)
  from load_meshes_decode[OF lm] obtain ys where
    ys: "length ys = unat w" "meshes = ys" "s2 = concat (map WriteMesh ys) @ s3"
      "list_all (mesh_ok cnt) ys" "map HeaderMesh ys = ys"
    by auto
  let ?x = "\<lparr>ScreenSize = ss, Meshes = meshes\<rparr>"
  let ?lods = "lods[i := ?x]"
  from Suc.IH[OF rec] Suc.prems(2) obtain xs where
    xs: "length xs = k" "lods' = take (Suc i) ?lods @ xs @ drop (Suc i + k) ?lods"
      "s3 = concat (map WriteLOD xs) @ rest" "list_all (lod_ok env cnt) xs"
      "map HeaderLOD xs = xs"
      "list_all (\<lambda>x. length (Meshes x) \<le> length (Meshes (?lods ! 0))) xs"
    by auto
  have first: "?lods ! 0 = (if i = 0 then ?x else lods ! 0)"
    using il by (simp add: nth_list_update)
  have "lods' = take i lods @ (?x # xs) @ drop (i + Suc k) lods"
    using xs(2) il by (simp add: take_Suc_update)
  moreover have "s = concat (map WriteLOD (?x # xs)) @ rest"
    by (simp add: s xs(3) ys WriteLOD_def)
  moreover have "unat w < 2 ^ LENGTH(16)"
    by (rule unsigned_less)
  then have "list_all (lod_ok env cnt) (?x # xs)"
    using w xs(4) ys by (simp add: lod_ok_def)
  moreover have "map HeaderLOD (?x # xs) = ?x # xs"
    using xs(5) ys by (simp add: HeaderLOD_def)
  moreover have "list_all (\<lambda>x. length (Meshes x)
                     \<le> length (Meshes (if i = 0 then hd (?x # xs) else lods ! 0))) (?x # xs)"
    using xs(6) asrt ys(1,2) unfolding first by (cases "i = 0") simp_all
  ultimately show ?case
    using xs(1) by (intro exI[of _ "?x # xs"]) simp
qed


lemma unat_of_nat_16: "n < 65536 \<Longrightarrow> unat (of_nat n :: 16 word) = n"
  by (simp add: unat_of_nat)

lemma unat_of_nat_8: "n < 256 \<Longrightarrow> unat (of_nat n :: 8 word) = n"
  by (simp add: unat_of_nat)

lemma load_lods_encode:
  "list_all (lod_ok env cnt) xs \<Longrightarrow> cnt \<le> 2147483648 \<Longrightarrow> i + length xs \<le> length lods \<Longrightarrow>
   list_all (\<lambda>x. length (Meshes x) \<le> length (Meshes (if i = 0 then hd xs else lods ! 0))) xs \<Longrightarrow>
   load_lods env cnt (length xs) i lods (concat (map WriteLOD xs) @ rest)
     = Continue (take i lods @ map HeaderLOD xs @ drop (i + length xs) lods) rest"
proof (induction xs arbitrary: i lods)
  case Nil
  then show ?case by simp
next
  case (Cons x xs)
  have il: "i < length lods" using Cons.prems(3) by simp
  have ok: "0 < length (Meshes x)" "length (Meshes x) \<le> MODEL_MAX_MESHES env"
    "length (Meshes x) < 65536" "list_all (mesh_ok cnt) (Meshes x)"
    using Cons.prems(1) by (simp_all add: lod_ok_def)
  have n: "unat (of_nat (length (Meshes x)) :: 16 word) = length (Meshes x)"
    using ok(3) by (rule unat_of_nat_16)
  have asrt: "i = 0 \<or> length (Meshes x) \<le> length (Meshes (lods ! 0))"
    using Cons.prems(4) by (cases "i = 0") simp_all
  have lm: "load_meshes cnt (length (Meshes x)) 0
              (Resize (NewMesh env) (length (Meshes x)) (Meshes (lods ! i)))
              (concat (map WriteMesh (Meshes x)) @ concat (map WriteLOD xs) @ rest)
            = Continue (map HeaderMesh (Meshes x)) (concat (map WriteLOD xs) @ rest)"
    using load_meshes_encode[OF ok(4) Cons.prems(2), of 0
        "Resize (NewMesh env) (length (Meshes x)) (Meshes (lods ! i))"
        "concat (map WriteLOD xs) @ rest"]
    by simp
  let ?lods = "lods[i := HeaderLOD x]"
  have "load_lods env cnt (length (x # xs)) i lods (concat (map WriteLOD (x # xs)) @ rest)
        = load_lods env cnt (Suc (length xs)) i lods
            (Float (ScreenSize x) # Uint16 (of_nat (length (Meshes x)))
             # (concat (map WriteMesh (Meshes x)) @ concat (map WriteLOD xs) @ rest))"
    by (simp add: WriteLOD_def del: load_lods.simps)
  also have "\<dots> = load_lods env cnt (length xs) (Suc i) ?lods (concat (map WriteLOD xs) @ rest)"
    unfolding load_lods_step[OF il] using ok asrt by (simp add: n lm HeaderLOD_def)
  also have "\<dots> = Continue (take (Suc i) ?lods @ map HeaderLOD xs
                              @ drop (Suc i + length xs) ?lods) rest"
  proof (rule Cons.IH)
    show "list_all (lod_ok env cnt) xs" using Cons.prems(1) by simp
    show "cnt \<le> 2147483648" by fact
    show "Suc i + length xs \<le> length ?lods" using Cons.prems(3) by simp
    have "?lods ! 0 = (if i = 0 then HeaderLOD x else lods ! 0)"
      using il by (simp add: nth_list_update)
    then show "list_all (\<lambda>y. length (Meshes y)
                 \<le> length (Meshes (if Suc i = 0 then hd xs else ?lods ! 0))) xs"
      using Cons.prems(4) by (cases "i = 0") (simp_all add: HeaderLOD_def)
  qed
  also have "take (Suc i) ?lods @ map HeaderLOD xs @ drop (Suc i + length xs) ?lods
             = take i lods @ map HeaderLOD (x # xs) @ drop (i + length (x # xs)) lods"
    using il by (simp add: take_Suc_update)
  finally show ?case .
qed

lemma load_header_Return:
  "load_header env m s = Return r m' msgs \<Longrightarrow> r = InvalidData"
  by (auto simp: load_header_def Let_def load_slots_no_Return dest: load_lods_Return
      split: sum.splits prod.splits if_splits flow.splits)

lemma load_header_step:
  "load_header env m (Float f # Int32 w # s2) =
     (if sint w \<le> 0 \<or> sint w > 4096 then Return InvalidData (m\<lparr>MinScreenSize := f\<rparr>) []
      else
        (case load_slots (nat (sint w)) 0 (Resize (NewSlot env) (nat (sint w)) (MaterialSlots m)) s2 of
           Abort e \<Rightarrow> Abort e
         | Return r slots msgs \<Rightarrow> Return r (m\<lparr>MinScreenSize := f, MaterialSlots := slots\<rparr>) msgs
         | Continue slots s3 \<Rightarrow>
             (case ReadByte s3 of
                Inl e \<Rightarrow> Abort e
              | Inr (lods, s4) \<Rightarrow>
                  if lods = 0 \<or> unat lods > MODEL_MAX_LODS env
                  then Return InvalidData (m\<lparr>MinScreenSize := f, MaterialSlots := slots\<rparr>) []
                  else
                    (case load_lods env (sint w) (unat lods) 0
                            (Resize (NewLOD env) (unat lods) (LODs m)) s4 of
                       Abort e \<Rightarrow> Abort e
                     | Return r lods' msgs \<Rightarrow>
                         Return r (m\<lparr>MinScreenSize := f, MaterialSlots := slots, LODs := lods'\<rparr>) msgs
                     | Continue lods' s5 \<Rightarrow>
                         Continue (m\<lparr>MinScreenSize := f, MaterialSlots := slots, LODs := lods'\<rparr>) s5))))"
  by (simp add: load_header_def Let_def split: flow.splits sum.splits prod.splits)

lemma load_header_shape:
  assumes "load_header env m s = Continue m' rest"
  shows "\<exists>f w s2. s = Float f # Int32 w # s2"
  using assms by (auto simp: load_header_def Read_Inr split: sum.splits prod.splits)

lemma of_nat_nat_sint: "0 \<le> sint (w::32 word) \<Longrightarrow> (of_nat (nat (sint w)) :: 32 word) = w"
  by simp

lemma load_header_decode:
  assumes "load_header env m s = Continue m' rest"
  shows "s = Save_header m' @ rest \<and> header_valid env m' \<and>
         m' = m\<lparr>MinScreenSize := MinScreenSize m', MaterialSlots := MaterialSlots m',
                LODs := LODs m'\<rparr> \<and>
         map HeaderLOD (LODs m') = LODs m'"
proof -
  from load_header_shape[OF assms] obtain f w s2 where s: "s = Float f # Int32 w # s2"
    by blast
  note step = assms[unfolded s load_header_step]
  from step have w: "0 < sint w" "sint w \<le> 4096"
    by (auto split: if_splits)
  from step w obtain slots b s4 where
    ls: "load_slots (nat (sint w)) 0 (Resize (NewSlot env) (nat (sint w)) (MaterialSlots m)) s2
           = Continue slots (Byte b # s4)"
    and b: "b \<noteq> 0" "unat b \<le> MODEL_MAX_LODS env"
    and rest: "(case load_lods env (sint w) (unat b) 0 (Resize (NewLOD env) (unat b) (LODs m)) s4 of
                  Abort e \<Rightarrow> Abort e
                | Return r lods' msgs \<Rightarrow>
                    Return r (m\<lparr>MinScreenSize := f, MaterialSlots := slots, LODs := lods'\<rparr>) msgs
                | Continue lods' s5 \<Rightarrow>
                    Continue (m\<lparr>MinScreenSize := f, MaterialSlots := slots, LODs := lods'\<rparr>) s5)
               = Continue m' rest"
    by (auto simp: Read_Inr split: if_splits flow.splits sum.splits prod.splits)
  from rest obtain lods where
    ll: "load_lods env (sint w) (unat b) 0 (Resize (NewLOD env) (unat b) (LODs m)) s4
           = Continue lods rest"
    and m': "m' = m\<lparr>MinScreenSize := f, MaterialSlots := slots, LODs := lods\<rparr>"
    by (auto split: flow.splits)
  from load_slots_decode[OF ls] have
    sl: "length slots = nat (sint w)" "s2 = concat (map WriteSlot slots) @ Byte b # s4"
    by auto
  from load_lods_decode[OF ll] have
    lo: "length lods = unat b" "s4 = concat (map WriteLOD lods) @ rest"
      "list_all (lod_ok env (sint w)) lods" "map HeaderLOD lods = lods"
      "list_all (\<lambda>x. length (Meshes x) \<le> length (Meshes (hd lods))) lods"
    by auto
  have cnt: "int (length slots) = sint w" using sl(1) w by simp
  have wl: "(of_nat (length slots) :: 32 word) = w"
    using sl(1) w by (simp add: of_nat_nat_sint)
  have bl: "(of_nat (length lods) :: 8 word) = b"
    using lo(1) by simp
  have bpos: "0 < unat b" using b(1) by (simp add: unat_gt_0)
  have blt: "unat b < 2 ^ LENGTH(8)" by (rule unsigned_less)
  have "s = Save_header m' @ rest"
    by (simp add: s m' Save_header_def wl bl sl(2) lo(2))
  moreover have "header_valid env m'"
    using w b bpos blt sl(1) lo(1,3,5) by (simp add: header_valid_def m' cnt)
  ultimately show ?thesis
    using lo(4) by (simp add: m')
qed

lemma sint_of_nat_32: "n \<le> 4096 \<Longrightarrow> sint (of_nat n :: 32 word) = int n"
  using sint_word_of_int_32[of "int n"] by simp

lemma of_nat_8_eq_0: "(of_nat n :: 8 word) = 0 \<longleftrightarrow> n = 0" if "n < 256"
proof
  assume "(of_nat n :: 8 word) = 0"
  then have "unat (of_nat n :: 8 word) = 0" by simp
  then show "n = 0" using unat_of_nat_8[of n] that by simp
qed simp

lemma load_header_encode:
  assumes "header_valid env m"
  shows "load_header env m0 (Save_header m @ rest)
           = Continue (m0\<lparr>MinScreenSize := MinScreenSize m, MaterialSlots := MaterialSlots m,
                          LODs := map HeaderLOD (LODs m)\<rparr>) rest"
proof -
  let ?slots = "MaterialSlots m" and ?lods = "LODs m"
  from assms have v: "0 < length ?slots" "length ?slots \<le> 4096" "0 < length ?lods"
    "length ?lods \<le> MODEL_MAX_LODS env" "length ?lods < 256"
    "list_all (lod_ok env (int (length ?slots))) ?lods"
    "list_all (\<lambda>x. length (Meshes x) \<le> length (Meshes (hd ?lods))) ?lods"
    by (simp_all add: header_valid_def)
  have n: "sint (of_nat (length ?slots) :: 32 word) = int (length ?slots)"
    using v(2) by (rule sint_of_nat_32)
  have b: "unat (of_nat (length ?lods) :: 8 word) = length ?lods"
    using v(5) by (rule unat_of_nat_8)
  have b0: "(of_nat (length ?lods) :: 8 word) \<noteq> 0"
    using v(3,5) by (simp add: of_nat_8_eq_0)
  have ls: "load_slots (length ?slots) 0 (Resize (NewSlot env) (length ?slots) (MaterialSlots m0))
              (concat (map WriteSlot ?slots) @ Byte (of_nat (length ?lods))
                 # concat (map WriteLOD ?lods) @ rest)
            = Continue ?slots (Byte (of_nat (length ?lods)) # concat (map WriteLOD ?lods) @ rest)"
    using load_slots_encode[of 0 ?slots "Resize (NewSlot env) (length ?slots) (MaterialSlots m0)"
        "Byte (of_nat (length ?lods)) # concat (map WriteLOD ?lods) @ rest"]
    by simp
  have ll: "load_lods env (int (length ?slots)) (length ?lods) 0
              (Resize (NewLOD env) (length ?lods) (LODs m0)) (concat (map WriteLOD ?lods) @ rest)
            = Continue (map HeaderLOD ?lods) rest"
    using load_lods_encode[OF v(6), of 0 "Resize (NewLOD env) (length ?lods) (LODs m0)" rest]
      v(2,7)
    by simp
  have e: "Save_header m @ rest = Float (MinScreenSize m) # Int32 (of_nat (length ?slots))
          # (concat (map WriteSlot ?slots) @ Byte (of_nat (length ?lods))
                 # concat (map WriteLOD ?lods) @ rest)"
    by (simp add: Save_header_def)
  show ?thesis
    unfolding e load_header_step using v(1,2,4) b0
    by (simp add: n b ls ll)
qed

text \<open>
  Reading a valid prefix of the meshes or of the LODs leaves the loop at the element
  after it, with the elements read stored.
\<close>

lemma load_meshes_prefix:
  "list_all (mesh_ok cnt) xs \<Longrightarrow> cnt \<le> 2147483648 \<Longrightarrow> i + length xs \<le> length ms \<Longrightarrow>
   load_meshes cnt (length xs + k) i ms (concat (map WriteMesh xs) @ rest)
     = load_meshes cnt k (i + length xs)
         (take i ms @ map HeaderMesh xs @ drop (i + length xs) ms) rest"
proof (induction xs arbitrary: i ms)
  case Nil
  then show ?case by simp
next
  case (Cons x xs)
  have idx: "0 \<le> MaterialSlotIndex x" "MaterialSlotIndex x < cnt"
    using Cons.prems(1) by (simp_all add: mesh_ok_def)
  then have rd: "sint (word_of_int (MaterialSlotIndex x) :: 32 word) = MaterialSlotIndex x"
    using Cons.prems(2) by (intro sint_word_of_int_32) auto
  have "load_meshes cnt (length (x # xs) + k) i ms (concat (map WriteMesh (x # xs)) @ rest)
        = load_meshes cnt (length xs + k) (Suc i) (ms[i := HeaderMesh x])
            (concat (map WriteMesh xs) @ rest)"
    using idx by (simp add: WriteMesh_def rd HeaderMesh_def)
  also have "\<dots> = load_meshes cnt k (Suc i + length xs)
                     (take (Suc i) (ms[i := HeaderMesh x]) @ map HeaderMesh xs
                              @ drop (Suc i + length xs) (ms[i := HeaderMesh x])) rest"
    using Cons.prems by (intro Cons.IH) simp_all
  also have "take (Suc i) (ms[i := HeaderMesh x]) @ map HeaderMesh xs
               @ drop (Suc i + length xs) (ms[i := HeaderMesh x])
             = take i ms @ map HeaderMesh (x # xs) @ drop (i + length (x # xs)) ms"
    using Cons.prems by (simp add: take_Suc_update)
  finally show ?case by simp
qed

lemma load_lods_prefix:
  "list_all (lod_ok env cnt) xs \<Longrightarrow> cnt \<le> 2147483648 \<Longrightarrow> i + length xs \<le> length lods \<Longrightarrow>
   list_all (\<lambda>x. length (Meshes x) \<le> length (Meshes (if i = 0 then hd xs else lods ! 0))) xs \<Longrightarrow>
   load_lods env cnt (length xs + k) i lods (concat (map WriteLOD xs) @ rest)
     = load_lods env cnt k (i + length xs)
         (take i lods @ map HeaderLOD xs @ drop (i + length xs) lods) rest"
proof (induction xs arbitrary: i lods)
  case Nil
  then show ?case by simp
next
  case (Cons x xs)
  have il: "i < length lods" using Cons.prems(3) by simp
  have ok: "0 < length (Meshes x)" "length (Meshes x) \<le> MODEL_MAX_MESHES env"
    "length (Meshes x) < 65536" "list_all (mesh_ok cnt) (Meshes x)"
    using Cons.prems(1) by (simp_all add: lod_ok_def)
  have n: "unat (of_nat (length (Meshes x)) :: 16 word) = length (Meshes x)"
    using ok(3) by (rule unat_of_nat_16)
  have asrt: "i = 0 \<or> length (Meshes x) \<le> length (Meshes (lods ! 0))"
    using Cons.prems(4) by (cases "i = 0") simp_all
  have lm: "load_meshes cnt (length (Meshes x)) 0
              (Resize (NewMesh env) (length (Meshes x)) (Meshes (lods ! i)))
              (concat (map WriteMesh (Meshes x)) @ concat (map WriteLOD xs) @ rest)
            = Continue (map HeaderMesh (Meshes x)) (concat (map WriteLOD xs) @ rest)"
    using load_meshes_encode[OF ok(4) Cons.prems(2), of 0
        "Resize (NewMesh env) (length (Meshes x)) (Meshes (lods ! i))"
        "concat (map WriteLOD xs) @ rest"]
    by simp
  let ?lods = "lods[i := HeaderLOD x]"
  have "load_lods env cnt (length (x # xs) + k) i lods (concat (map WriteLOD (x # xs)) @ rest)
        = load_lods env cnt (Suc (length xs + k)) i lods
            (Float (ScreenSize x) # Uint16 (of_nat (length (Meshes x)))
             # (concat (map WriteMesh (Meshes x)) @ concat (map WriteLOD xs) @ rest))"
    by (simp add: WriteLOD_def del: load_lods.simps)
  also have "\<dots> = load_lods env cnt (length xs + k) (Suc i) ?lods (concat (map WriteLOD xs) @ rest)"
    unfolding load_lods_step[OF il] using ok asrt by (simp add: n lm HeaderLOD_def)
  also have "\<dots> = load_lods env cnt k (Suc i + length xs)
                     (take (Suc i) ?lods @ map HeaderLOD xs
                              @ drop (Suc i + length xs) ?lods) rest"
  proof (rule Cons.IH)
    show "list_all (lod_ok env cnt) xs" using Cons.prems(1) by simp
    show "cnt \<le> 2147483648" by fact
    show "Suc i + length xs \<le> length ?lods" using Cons.prems(3) by simp
    have "?lods ! 0 = (if i = 0 then HeaderLOD x else lods ! 0)"
      using il by (simp add: nth_list_update)
    then show "list_all (\<lambda>y. length (Meshes y)
                 \<le> length (Meshes (if Suc i = 0 then hd xs else ?lods ! 0))) xs"
      using Cons.prems(4) by (cases "i = 0") (simp_all add: HeaderLOD_def)
  qed
  also have "take (Suc i) ?lods @ map HeaderLOD xs @ drop (Suc i + length xs) ?lods
             = take i lods @ map HeaderLOD (x # xs) @ drop (i + length (x # xs)) lods"
    using il by (simp add: take_Suc_update)
  finally show ?case by simp
qed

text \<open>The loops at a field that fails its check, after a valid prefix.\<close>

lemma load_meshes_bad_index:
  assumes "list_all (mesh_ok cnt) ys" and "cnt \<le> 2147483648" and "j + length ys \<le> length ms"
    and "sint x < 0 \<or> cnt \<le> sint x"
  shows "load_meshes cnt (length ys + Suc k) j ms (concat (map WriteMesh ys) @ Int32 x # rest)
           = Return InvalidData (take j ms @ map HeaderMesh ys @ drop (j + length ys) ms)
               [(Warning, ''Invalid material slot index'')]"
  unfolding load_meshes_prefix[OF assms(1-3)] using assms(4) by simp

lemma load_lods_bad_count:
  assumes "list_all (lod_ok env cnt) xs" and "cnt \<le> 2147483648"
    and "i + length xs < length lods"
    and "list_all (\<lambda>x. length (Meshes x) \<le> length (Meshes (if i = 0 then hd xs else lods ! 0))) xs"
    and "unat c = 0 \<or> MODEL_MAX_MESHES env < unat c"
  shows "load_lods env cnt (length xs + Suc k) i lods
           (concat (map WriteLOD xs) @ Float ss # Uint16 c # rest)
         = Return InvalidData
             ((take i lods @ map HeaderLOD xs @ drop (i + length xs) lods)
                [i + length xs := (lods ! (i + length xs))\<lparr>ScreenSize := ss\<rparr>]) []"
proof -
  let ?L = "take i lods @ map HeaderLOD xs @ drop (i + length xs) lods"
  have le: "i + length xs \<le> length lods" using assms(3) by simp
  have len: "i + length xs < length ?L" using assms(3) by simp
  have nth: "?L ! (i + length xs) = lods ! (i + length xs)"
    using assms(3) by (simp add: nth_append)
  show ?thesis
    unfolding load_lods_prefix[OF assms(1,2) le assms(4)] load_lods_step[OF len]
    using assms(5) by (simp only: nth if_True) 
qed


lemma load_lods_bad_index:
  assumes "list_all (lod_ok env cnt) xs" and "cnt \<le> 2147483648"
    and "i + length xs < length lods"
    and "list_all (\<lambda>x. length (Meshes x) \<le> length (Meshes (if i = 0 then hd xs else lods ! 0))) xs"
    and "unat c \<noteq> 0" and "unat c \<le> MODEL_MAX_MESHES env"
    and "i + length xs = 0 \<or> unat c \<le> length (Meshes
            ((take i lods @ map HeaderLOD xs @ drop (i + length xs) lods) ! 0))"
    and "list_all (mesh_ok cnt) ys" and "length ys < unat c"
    and "sint x < 0 \<or> cnt \<le> sint x"
  shows "load_lods env cnt (length xs + Suc k) i lods
           (concat (map WriteLOD xs) @ Float ss # Uint16 c
              # concat (map WriteMesh ys) @ Int32 x # rest)
         = Return InvalidData
             ((take i lods @ map HeaderLOD xs @ drop (i + length xs) lods)
                [i + length xs :=
                   \<lparr>ScreenSize = ss,
                    Meshes = map HeaderMesh ys
                      @ drop (length ys)
                          (Resize (NewMesh env) (unat c) (Meshes (lods ! (i + length xs))))\<rparr>])
             [(Warning, ''Invalid material slot index'')]"
proof -
  let ?L = "take i lods @ map HeaderLOD xs @ drop (i + length xs) lods"
  let ?R = "Resize (NewMesh env) (unat c) (Meshes (lods ! (i + length xs)))"
  have le: "i + length xs \<le> length lods" using assms(3) by simp
  have len: "i + length xs < length ?L" using assms(3) by simp
  have nth: "?L ! (i + length xs) = lods ! (i + length xs)"
    using assms(3) by (simp add: nth_append)
  obtain k' where k': "unat c = length ys + Suc k'"
    using assms(9) less_iff_Suc_add by auto
  have lm: "load_meshes cnt (unat c) 0 ?R (concat (map WriteMesh ys) @ Int32 x # rest)
            = Return InvalidData (map HeaderMesh ys @ drop (length ys) ?R)
                [(Warning, ''Invalid material slot index'')]"
    using load_meshes_bad_index[OF assms(8) assms(2) _ assms(10), of 0 ?R k' rest] assms(9)
    by (simp add: k')
  show ?thesis
    unfolding load_lods_prefix[OF assms(1,2) le assms(4)] load_lods_step[OF len] nth
    using assms(5,6,7) by (simp add: lm)
qed

lemma load_header_prefix:
  assumes "0 < length slots" and "length slots \<le> 4096"
  shows "load_header env m (HeaderPrefix f slots b @ rest) =
     (if b = 0 \<or> MODEL_MAX_LODS env < unat b
      then Return InvalidData (m\<lparr>MinScreenSize := f, MaterialSlots := slots\<rparr>) []
      else
        (case load_lods env (int (length slots)) (unat b) 0
                (Resize (NewLOD env) (unat b) (LODs m)) rest of
           Abort e \<Rightarrow> Abort e
         | Return r lods' msgs \<Rightarrow>
             Return r (m\<lparr>MinScreenSize := f, MaterialSlots := slots, LODs := lods'\<rparr>) msgs
         | Continue lods' s5 \<Rightarrow>
             Continue (m\<lparr>MinScreenSize := f, MaterialSlots := slots, LODs := lods'\<rparr>) s5))"
proof -
  have n: "sint (of_nat (length slots) :: 32 word) = int (length slots)"
    using assms(2) by (rule sint_of_nat_32)
  have ls: "load_slots (length slots) 0 (Resize (NewSlot env) (length slots) (MaterialSlots m))
              (concat (map WriteSlot slots) @ Byte b # rest)
            = Continue slots (Byte b # rest)"
    using load_slots_encode[of 0 slots "Resize (NewSlot env) (length slots) (MaterialSlots m)"
        "Byte b # rest"]
    by simp
  have e: "HeaderPrefix f slots b @ rest
             = Float f # Int32 (of_nat (length slots)) # (concat (map WriteSlot slots) @ Byte b # rest)"
    by (simp add: HeaderPrefix_def)
  show ?thesis
    unfolding e load_header_step using assms by (simp add: n ls)
qed

lemma load_of_Return:
  "Chunks m 0 = Some s \<Longrightarrow> load_header env m s = Return r m' msgs \<Longrightarrow>
   load env m = Inr (r, m'\<lparr>Log := Log m' @ msgs\<rparr>)"
  by (simp add: load_def)

text \<open>
  Claim C4, as amended. \<^verbatim>\<open>load\<close> returns \<^verbatim>\<open>InvalidData\<close> on a header whose slot
  count is not in 1..4096; on one whose LOD count is 0 or above \<^verbatim>\<open>MODEL_MAX_LODS\<close>;
  on one where, after LODs that pass the checks, a LOD has the mesh count 0 or one above
  \<^verbatim>\<open>MODEL_MAX_MESHES\<close>; and on one where, after meshes that pass, a mesh has a
  material slot index outside the slot table. Every other return of the header part is
  \<^verbatim>\<open>InvalidData\<close> too, and a header that is accepted is one that \<^verbatim>\<open>Save\<close> writes
  for an asset within all these bounds. What the failed load leaves differs: on the slot
  count the slot, LOD and mesh arrays are untouched; on the LOD count the LOD and mesh
  arrays are untouched; on a mesh count or a slot index the LOD array has been resized to
  the LOD count and holds the LODs read so far (and the failing LOD the meshes read so
  far).
\<close>

theorem load_rejects_invalid_header:
  "(Chunks m 0 = Some (Float f # Int32 w # rest) \<and> (sint w \<le> 0 \<or> 4096 < sint w) \<longrightarrow>
      (case load env m of
         Inr (r, m') \<Rightarrow> r = InvalidData \<and> MaterialSlots m' = MaterialSlots m \<and> LODs m' = LODs m
       | Inl e \<Rightarrow> False)) \<and>
   (Chunks m 0 = Some (HeaderPrefix f slots b @ rest) \<and> 0 < length slots \<and> length slots \<le> 4096
      \<and> (b = 0 \<or> MODEL_MAX_LODS env < unat b) \<longrightarrow>
      (case load env m of
         Inr (r, m') \<Rightarrow> r = InvalidData \<and> MaterialSlots m' = slots \<and> LODs m' = LODs m
       | Inl e \<Rightarrow> False)) \<and>
   (Chunks m 0 = Some (HeaderPrefix f slots b @ concat (map WriteLOD xs)
                         @ Float ss # Uint16 c # rest)
      \<and> 0 < length slots \<and> length slots \<le> 4096 \<and> b \<noteq> 0 \<and> unat b \<le> MODEL_MAX_LODS env
      \<and> list_all (lod_ok env (int (length slots))) xs
      \<and> list_all (\<lambda>x. length (Meshes x) \<le> length (Meshes (hd xs))) xs
      \<and> length xs < unat b
      \<and> (unat c = 0 \<or> MODEL_MAX_MESHES env < unat c) \<longrightarrow>
      (case load env m of
         Inr (r, m') \<Rightarrow>
           r = InvalidData \<and> MaterialSlots m' = slots \<and> length (LODs m') = unat b
           \<and> take (length xs) (LODs m') = map HeaderLOD xs
       | Inl e \<Rightarrow> False)) \<and>
   (Chunks m 0 = Some (HeaderPrefix f slots b @ concat (map WriteLOD xs)
                         @ Float ss # Uint16 c # concat (map WriteMesh ys) @ Int32 x # rest)
      \<and> 0 < length slots \<and> length slots \<le> 4096 \<and> b \<noteq> 0 \<and> unat b \<le> MODEL_MAX_LODS env
      \<and> list_all (lod_ok env (int (length slots))) xs
      \<and> list_all (\<lambda>x. length (Meshes x) \<le> length (Meshes (hd xs))) xs
      \<and> length xs < unat b
      \<and> unat c \<noteq> 0 \<and> unat c \<le> MODEL_MAX_MESHES env
      \<and> (xs = [] \<or> unat c \<le> length (Meshes (hd xs)))
      \<and> list_all (mesh_ok (int (length slots))) ys \<and> length ys < unat c
      \<and> (sint x < 0 \<or> int (length slots) \<le> sint x) \<longrightarrow>
      (case load env m of
         Inr (r, m') \<Rightarrow>
           r = InvalidData \<and> MaterialSlots m' = slots \<and> length (LODs m') = unat b
           \<and> take (length xs) (LODs m') = map HeaderLOD xs
           \<and> length (Meshes (LODs m' ! length xs)) = unat c
           \<and> take (length ys) (Meshes (LODs m' ! length xs)) = map HeaderMesh ys
       | Inl e \<Rightarrow> False)) \<and>
   (load_header env m s = Return r m' msgs \<longrightarrow> r = InvalidData) \<and>
   (load_header env m s = Continue m' rest \<longrightarrow> s = Save_header m' @ rest \<and> header_valid env m')"
proof (intro conjI impI)
  assume a: "Chunks m 0 = Some (Float f # Int32 w # rest) \<and> (sint w \<le> 0 \<or> 4096 < sint w)"
  then have "load_header env m (Float f # Int32 w # rest)
               = Return InvalidData (m\<lparr>MinScreenSize := f\<rparr>) []"
    by (simp add: load_header_step)
  from load_of_Return[OF _ this] a
  show "case load env m of
         Inr (r, m') \<Rightarrow> r = InvalidData \<and> MaterialSlots m' = MaterialSlots m \<and> LODs m' = LODs m
       | Inl e \<Rightarrow> False"
    by simp
next
  assume a: "Chunks m 0 = Some (HeaderPrefix f slots b @ rest) \<and> 0 < length slots
      \<and> length slots \<le> 4096 \<and> (b = 0 \<or> MODEL_MAX_LODS env < unat b)"
  then have "load_header env m (HeaderPrefix f slots b @ rest)
               = Return InvalidData (m\<lparr>MinScreenSize := f, MaterialSlots := slots\<rparr>) []"
    by (simp add: load_header_prefix)
  from load_of_Return[OF _ this] a
  show "case load env m of
         Inr (r, m') \<Rightarrow> r = InvalidData \<and> MaterialSlots m' = slots \<and> LODs m' = LODs m
       | Inl e \<Rightarrow> False"
    by simp
next
  let ?s = "HeaderPrefix f slots b @ concat (map WriteLOD xs) @ Float ss # Uint16 c # rest"
  let ?R = "Resize (NewLOD env) (unat b) (LODs m)"
  assume a: "Chunks m 0 = Some ?s
      \<and> 0 < length slots \<and> length slots \<le> 4096 \<and> b \<noteq> 0 \<and> unat b \<le> MODEL_MAX_LODS env
      \<and> list_all (lod_ok env (int (length slots))) xs
      \<and> list_all (\<lambda>x. length (Meshes x) \<le> length (Meshes (hd xs))) xs
      \<and> length xs < unat b
      \<and> (unat c = 0 \<or> MODEL_MAX_MESHES env < unat c)"
  then obtain k where k: "unat b = length xs + Suc k"
    using less_iff_Suc_add by auto
  have ll: "load_lods env (int (length slots)) (unat b) 0 ?R
              (concat (map WriteLOD xs) @ Float ss # Uint16 c # rest)
            = Return InvalidData
                ((take 0 ?R @ map HeaderLOD xs @ drop (0 + length xs) ?R)
                   [0 + length xs := (?R ! (0 + length xs))\<lparr>ScreenSize := ss\<rparr>]) []"
    unfolding k using a
    by (intro load_lods_bad_count) (simp_all add: k)
  have "load_header env m ?s
          = Return InvalidData
              (m\<lparr>MinScreenSize := f, MaterialSlots := slots,
                 LODs := (take 0 ?R @ map HeaderLOD xs @ drop (0 + length xs) ?R)
                   [0 + length xs := (?R ! (0 + length xs))\<lparr>ScreenSize := ss\<rparr>]\<rparr>) []"
    using a by (simp add: load_header_prefix ll del: append_assoc append.simps)
  from load_of_Return[OF _ this] a
  show "case load env m of
         Inr (r, m') \<Rightarrow>
           r = InvalidData \<and> MaterialSlots m' = slots \<and> length (LODs m') = unat b
           \<and> take (length xs) (LODs m') = map HeaderLOD xs
       | Inl e \<Rightarrow> False"
    by (simp add: k)
next
  let ?s = "HeaderPrefix f slots b @ concat (map WriteLOD xs)
              @ Float ss # Uint16 c # concat (map WriteMesh ys) @ Int32 x # rest"
  let ?R = "Resize (NewLOD env) (unat b) (LODs m)"
  assume a: "Chunks m 0 = Some ?s
      \<and> 0 < length slots \<and> length slots \<le> 4096 \<and> b \<noteq> 0 \<and> unat b \<le> MODEL_MAX_LODS env
      \<and> list_all (lod_ok env (int (length slots))) xs
      \<and> list_all (\<lambda>x. length (Meshes x) \<le> length (Meshes (hd xs))) xs
      \<and> length xs < unat b
      \<and> unat c \<noteq> 0 \<and> unat c \<le> MODEL_MAX_MESHES env
      \<and> (xs = [] \<or> unat c \<le> length (Meshes (hd xs)))
      \<and> list_all (mesh_ok (int (length slots))) ys \<and> length ys < unat c
      \<and> (sint x < 0 \<or> int (length slots) \<le> sint x)"
  then obtain k where k: "unat b = length xs + Suc k"
    using less_iff_Suc_add by auto
  let ?M = "map HeaderMesh ys
              @ drop (length ys) (Resize (NewMesh env) (unat c) (Meshes (?R ! (0 + length xs))))"
  have first: "0 + length xs = 0 \<or> unat c \<le> length (Meshes
            ((take 0 ?R @ map HeaderLOD xs @ drop (0 + length xs) ?R) ! 0))"
    using a by (cases xs) (simp_all add: HeaderLOD_def)
  have ll: "load_lods env (int (length slots)) (unat b) 0 ?R
              (concat (map WriteLOD xs) @ Float ss # Uint16 c
                 # concat (map WriteMesh ys) @ Int32 x # rest)
            = Return InvalidData
                ((take 0 ?R @ map HeaderLOD xs @ drop (0 + length xs) ?R)
                   [0 + length xs := \<lparr>ScreenSize = ss, Meshes = ?M\<rparr>])
                [(Warning, ''Invalid material slot index'')]"
    unfolding k using a first
    by (intro load_lods_bad_index) (simp_all add: k)
  have "load_header env m ?s
          = Return InvalidData
              (m\<lparr>MinScreenSize := f, MaterialSlots := slots,
                 LODs := (take 0 ?R @ map HeaderLOD xs @ drop (0 + length xs) ?R)
                   [0 + length xs := \<lparr>ScreenSize = ss, Meshes = ?M\<rparr>]\<rparr>)
              [(Warning, ''Invalid material slot index'')]"
    using a by (simp add: load_header_prefix ll del: append_assoc append.simps)
  from load_of_Return[OF _ this] a
  show "case load env m of
         Inr (r, m') \<Rightarrow>
           r = InvalidData \<and> MaterialSlots m' = slots \<and> length (LODs m') = unat b
           \<and> take (length xs) (LODs m') = map HeaderLOD xs
           \<and> length (Meshes (LODs m' ! length xs)) = unat c
           \<and> take (length ys) (Meshes (LODs m' ! length xs)) = map HeaderMesh ys
       | Inl e \<Rightarrow> False"
    by (simp add: k nth_append)
next
  assume "load_header env m s = Return r m' msgs"
  then show "r = InvalidData" by (rule load_header_Return)
next
  assume "load_header env m s = Continue m' rest"
  then show "s = Save_header m' @ rest" "header_valid env m'"
    using load_header_decode by blast+
qed

text \<open>Running the loops on a count written as a numeral.\<close>

lemma load_slots_numeral:
  "load_slots (numeral n) i slots s = load_slots (Suc (pred_numeral n)) i slots s"
  by (simp add: numeral_eq_Suc)

lemma load_meshes_numeral:
  "load_meshes cnt (numeral n) i ms s = load_meshes cnt (Suc (pred_numeral n)) i ms s"
  by (simp add: numeral_eq_Suc)

lemma load_lods_numeral:
  "load_lods env cnt (numeral n) i lods s = load_lods env cnt (Suc (pred_numeral n)) i lods s"
  by (simp add: numeral_eq_Suc)

lemma replicate_numeral: "replicate (numeral n) x = x # replicate (pred_numeral n) x"
  by (simp add: numeral_eq_Suc)

lemma list_update_Cons_numeral: "(x # xs)[numeral n := y] = x # xs[pred_numeral n := y]"
  by (simp add: numeral_eq_Suc)

lemmas load_numeral = load_slots_numeral load_meshes_numeral load_lods_numeral
  replicate_numeral list_update_Cons_numeral

text \<open>The header part of \<^verbatim>\<open>load\<close> on the two concrete header chunks.\<close>

lemma load_header_bad_header:
  "load_header sample_env bad_header_model bad_header
        = Return InvalidData
            (bad_header_model\<lparr>MinScreenSize := 0, MaterialSlots := [sample_slot],
                LODs := [sample_lod, \<lparr>ScreenSize = 0, Meshes = []\<rparr>]\<rparr>) []"
  by (simp add: load_header_def bad_header_model_def bad_header_def sample_env_def
      new_model_def Resize_def Let_def sample_lod_def sample_mesh_def float_one_def
      sample_slot_def load_numeral)

lemma load_header_good_header:
  "load_header sample_env new_model good_header
     = Continue (new_model\<lparr>MaterialSlots := [sample_slot], LODs := [sample_lod]\<rparr>) []"
  by (simp add: load_header_def good_header_def sample_env_def new_model_def Resize_def
        Let_def sample_lod_def sample_mesh_def float_one_def sample_slot_def)

lemma load_header_good_header_any:
  assumes "1 \<le> MODEL_MAX_LODS env" and "1 \<le> MODEL_MAX_MESHES env"
  shows "load_header env m good_header
           = Continue (m\<lparr>MinScreenSize := 0, MaterialSlots := [sample_slot],
                         LODs := [sample_lod]\<rparr>) []"
proof -
  let ?g = "new_model\<lparr>MaterialSlots := [sample_slot], LODs := [sample_lod]\<rparr>"
  have v: "header_valid env ?g"
    using assms
    by (simp add: header_valid_def lod_ok_def mesh_ok_def sample_lod_def sample_mesh_def
        Mesh_Init_def)
  have s: "good_header = Save_header ?g @ []"
    by (simp add: good_header_def Save_header_def new_model_def WriteSlot_def WriteLOD_def
        WriteMesh_def sample_slot_def sample_lod_def sample_mesh_def Mesh_Init_def)
  have h: "map HeaderLOD [sample_lod] = [sample_lod]"
    by (simp add: HeaderLOD_def HeaderMesh_def sample_lod_def sample_mesh_def Mesh_Init_def)
  show ?thesis
    unfolding s load_header_encode[OF v] using h by (simp add: new_model_def)
qed

theorem load_rejects_invalid_header_witness:
  "Chunks zero_slots_model 0 = Some (Float 0 # Int32 0 # []) \<and> sint (0 :: 32 word) \<le> 0 \<and>
   (case load sample_env zero_slots_model of
      Inr (r, m') \<Rightarrow> r = InvalidData \<and> MaterialSlots m' = [] \<and> LODs m' = []
    | Inl e \<Rightarrow> False) \<and>
   Chunks zero_lods_model 0 = Some (HeaderPrefix 0 [sample_slot] 0 @ []) \<and>
   (case load sample_env zero_lods_model of
      Inr (r, m') \<Rightarrow> r = InvalidData \<and> MaterialSlots m' = [sample_slot] \<and> LODs m' = []
    | Inl e \<Rightarrow> False) \<and>
   Chunks bad_header_model 0
     = Some (HeaderPrefix 0 [sample_slot] 2 @ concat (map WriteLOD [sample_lod])
             @ Float 0 # Uint16 0 # []) \<and>
   lod_ok sample_env 1 sample_lod \<and> unat (2 :: byte) \<le> MODEL_MAX_LODS sample_env \<and>
   (case load sample_env bad_header_model of
      Inr (r, m') \<Rightarrow>
        r = InvalidData \<and> MaterialSlots m' = [sample_slot] \<and> length (LODs m') = 2
        \<and> take 1 (LODs m') = [sample_lod]
    | Inl e \<Rightarrow> False) \<and>
   Chunks bad_index_model 0
     = Some (HeaderPrefix 0 [sample_slot] 1 @ concat (map WriteLOD [])
             @ Float float_one # Uint16 1 # concat (map WriteMesh []) @ Int32 5 # []) \<and>
   (1::int) \<le> sint (5 :: 32 word) \<and>
   (case load sample_env bad_index_model of
      Inr (r, m') \<Rightarrow>
        r = InvalidData \<and> MaterialSlots m' = [sample_slot] \<and> length (LODs m') = 1
        \<and> length (Meshes (LODs m' ! 0)) = 1
    | Inl e \<Rightarrow> False) \<and>
   load_header sample_env bad_header_model bad_header
     = Return InvalidData
         (bad_header_model\<lparr>MinScreenSize := 0, MaterialSlots := [sample_slot],
             LODs := [sample_lod, \<lparr>ScreenSize = 0, Meshes = []\<rparr>]\<rparr>) [] \<and>
   load_header sample_env new_model good_header
     = Continue (new_model\<lparr>MaterialSlots := [sample_slot], LODs := [sample_lod]\<rparr>) [] \<and>
   good_header = Save_header (new_model\<lparr>MaterialSlots := [sample_slot], LODs := [sample_lod]\<rparr>) \<and>
   header_valid sample_env (new_model\<lparr>MaterialSlots := [sample_slot], LODs := [sample_lod]\<rparr>)"
proof -
  note T = load_rejects_invalid_header
  have f1: "MaterialSlots zero_slots_model = []" "LODs zero_slots_model = []"
    "LODs zero_lods_model = []"
    by (simp_all add: zero_slots_model_def zero_lods_model_def new_model_def)
  have h1: "Chunks zero_slots_model 0 = Some (Float 0 # Int32 0 # [])
              \<and> (sint (0 :: 32 word) \<le> 0 \<or> 4096 < sint (0 :: 32 word))"
    by (simp add: zero_slots_model_def)
  have r1: "case load sample_env zero_slots_model of
      Inr (r, m') \<Rightarrow> r = InvalidData \<and> MaterialSlots m' = [] \<and> LODs m' = []
    | Inl e \<Rightarrow> False"
    using T[where env = sample_env and m = zero_slots_model and f = 0 and w = 0 and rest = "[]",
        THEN conjunct1, THEN mp, OF h1]
    unfolding f1 .
  have h2: "Chunks zero_lods_model 0 = Some (HeaderPrefix 0 [sample_slot] 0 @ [])
      \<and> 0 < length [sample_slot] \<and> length [sample_slot] \<le> 4096
      \<and> ((0 :: byte) = 0 \<or> MODEL_MAX_LODS sample_env < unat (0 :: byte))"
    by (simp add: zero_lods_model_def)
  have r2: "case load sample_env zero_lods_model of
      Inr (r, m') \<Rightarrow> r = InvalidData \<and> MaterialSlots m' = [sample_slot] \<and> LODs m' = []
    | Inl e \<Rightarrow> False"
    using T[where env = sample_env and m = zero_lods_model and f = 0 and slots = "[sample_slot]"
        and b = 0 and rest = "[]", THEN conjunct2, THEN conjunct1, THEN mp, OF h2]
    unfolding f1 .
  have ok: "lod_ok sample_env 1 sample_lod"
    by (simp add: lod_ok_def sample_env_def sample_lod_def sample_mesh_def mesh_ok_def
        Mesh_Init_def)
  have c3: "Chunks bad_header_model 0
     = Some (HeaderPrefix 0 [sample_slot] 2 @ concat (map WriteLOD [sample_lod])
             @ Float 0 # Uint16 0 # [])"
    by (simp add: bad_header_model_def bad_header_def HeaderPrefix_def WriteSlot_def
        WriteLOD_def WriteMesh_def sample_slot_def sample_lod_def sample_mesh_def Mesh_Init_def
        float_one_def)
  have m6: "unat (2 :: byte) \<le> MODEL_MAX_LODS sample_env"
    by (simp add: sample_env_def)
  have h3: "Chunks bad_header_model 0
       = Some (HeaderPrefix 0 [sample_slot] 2 @ concat (map WriteLOD [sample_lod])
             @ Float 0 # Uint16 0 # [])
      \<and> 0 < length [sample_slot] \<and> length [sample_slot] \<le> 4096 \<and> (2 :: byte) \<noteq> 0
      \<and> unat (2 :: byte) \<le> MODEL_MAX_LODS sample_env
      \<and> list_all (lod_ok sample_env (int (length [sample_slot]))) [sample_lod]
      \<and> list_all (\<lambda>x. length (Meshes x) \<le> length (Meshes (hd [sample_lod]))) [sample_lod]
      \<and> length [sample_lod] < unat (2 :: byte)
      \<and> (unat (0 :: 16 word) = 0 \<or> MODEL_MAX_MESHES sample_env < unat (0 :: 16 word))"
    using c3 ok m6 by simp
  have r3: "case load sample_env bad_header_model of
      Inr (r, m') \<Rightarrow>
        r = InvalidData \<and> MaterialSlots m' = [sample_slot] \<and> length (LODs m') = 2
        \<and> take 1 (LODs m') = [sample_lod]
    | Inl e \<Rightarrow> False"
    using T[where env = sample_env and m = bad_header_model and f = 0
        and slots = "[sample_slot]" and b = 2 and xs = "[sample_lod]" and ss = 0 and c = 0
        and rest = "[]", THEN conjunct2, THEN conjunct2, THEN conjunct1, THEN mp, OF h3]
    by (simp add: HeaderLOD_def HeaderMesh_def sample_lod_def sample_mesh_def Mesh_Init_def
        split: sum.splits prod.splits)
  have c4: "Chunks bad_index_model 0
     = Some (HeaderPrefix 0 [sample_slot] 1 @ concat (map WriteLOD [])
             @ Float float_one # Uint16 1 # concat (map WriteMesh []) @ Int32 5 # [])"
    by (simp add: bad_index_model_def)
  have h4: "Chunks bad_index_model 0
       = Some (HeaderPrefix 0 [sample_slot] 1 @ concat (map WriteLOD [])
             @ Float float_one # Uint16 1 # concat (map WriteMesh []) @ Int32 5 # [])
      \<and> 0 < length [sample_slot] \<and> length [sample_slot] \<le> 4096 \<and> (1 :: byte) \<noteq> 0
      \<and> unat (1 :: byte) \<le> MODEL_MAX_LODS sample_env
      \<and> list_all (lod_ok sample_env (int (length [sample_slot]))) []
      \<and> list_all (\<lambda>x. length (Meshes x) \<le> length (Meshes (hd []))) []
      \<and> length ([] :: ModelLOD list) < unat (1 :: byte)
      \<and> unat (1 :: 16 word) \<noteq> 0 \<and> unat (1 :: 16 word) \<le> MODEL_MAX_MESHES sample_env
      \<and> (([] :: ModelLOD list) = [] \<or> unat (1 :: 16 word) \<le> length (Meshes (hd [])))
      \<and> list_all (mesh_ok (int (length [sample_slot]))) [] \<and> length ([] :: Mesh list) < unat (1 :: 16 word)
      \<and> (sint (5 :: 32 word) < 0 \<or> int (length [sample_slot]) \<le> sint (5 :: 32 word))"
    using c4 by (simp add: sample_env_def)
  have r4: "case load sample_env bad_index_model of
      Inr (r, m') \<Rightarrow>
        r = InvalidData \<and> MaterialSlots m' = [sample_slot] \<and> length (LODs m') = 1
        \<and> length (Meshes (LODs m' ! 0)) = 1
    | Inl e \<Rightarrow> False"
    using T[where env = sample_env and m = bad_index_model and f = 0
        and slots = "[sample_slot]" and b = 1 and xs = "[]" and ss = float_one and c = 1
        and ys = "[]" and x = 5 and rest = "[]",
        THEN conjunct2, THEN conjunct2, THEN conjunct2, THEN conjunct1, THEN mp, OF h4]
    by (simp split: sum.splits prod.splits)
  have r6: "good_header = Save_header (new_model\<lparr>MaterialSlots := [sample_slot], LODs := [sample_lod]\<rparr>) @ []
            \<and> header_valid sample_env (new_model\<lparr>MaterialSlots := [sample_slot], LODs := [sample_lod]\<rparr>)"
    using T[where env = sample_env and m = new_model and s = good_header
        and m' = "new_model\<lparr>MaterialSlots := [sample_slot], LODs := [sample_lod]\<rparr>"
        and rest = "[]",
        THEN conjunct2, THEN conjunct2, THEN conjunct2, THEN conjunct2, THEN conjunct2, THEN mp,
        OF load_header_good_header] .
  show ?thesis
    using h1 r1 h2 r2 c3 ok m6 r3 c4 r4 r6 load_header_bad_header load_header_good_header
    by simp
qed

text \<open>
  Claim C4 as stated fails in its last part: the header of \<open>bad_header_model\<close> has
  one slot and two LODs, the second with the mesh count 0. \<^verbatim>\<open>load\<close> returns
  \<^verbatim>\<open>InvalidData\<close> and leaves the LOD array, empty before the call, with two elements:
  the first LOD with its mesh, the second without meshes.
\<close>

theorem load_failure_leaves_partial_lods:
  "LODs bad_header_model = [] \<and>
   (case load sample_env bad_header_model of
      Inr (r, m') \<Rightarrow>
        r = InvalidData \<and> LODs m' = [sample_lod, \<lparr>ScreenSize = 0, Meshes = []\<rparr>]
    | Inl e \<Rightarrow> False)"
proof -
  have c: "Chunks bad_header_model 0 = Some bad_header"
    by (simp add: bad_header_model_def)
  have l: "LODs bad_header_model = []"
    by (simp add: bad_header_model_def new_model_def)
  show ?thesis
    using l by (simp add: load_def c load_header_bad_header)
qed

subsection \<open>Saving a header and loading it again\<close>

lemma same_header_HeaderLOD:
  "same_header (m0\<lparr>MinScreenSize := MinScreenSize m, MaterialSlots := MaterialSlots m,
                    LODs := map HeaderLOD (LODs m)\<rparr>) m"
  by (simp add: same_header_def HeaderLOD_def HeaderMesh_def Mesh_Init_def comp_def)

text \<open>
  Claim C5, as amended. Every asset that the header part of \<^verbatim>\<open>load\<close> accepts satisfies the
  bounds of a header; and for every asset within these bounds, whatever its LODs hold
  on the GPU, reading the header stream that \<^verbatim>\<open>Save\<close> writes for it succeeds,
  consumes exactly that stream, and yields the same minimum screen size, the same
  number of slots with the same names, shadow modes and materials, the same number of
  LODs with the same screen sizes and mesh counts, and for every mesh the same material
  slot index, box, sphere and lightmap-UV flag.
\<close>

theorem header_round_trip:
  "(load_header env m00 s = Continue m rest0 \<longrightarrow> header_valid env m) \<and>
   (header_valid env m \<longrightarrow>
      (case load_header env m0 (Save_header m @ rest) of
         Continue m' rest' \<Rightarrow> rest' = rest \<and> same_header m' m
       | Return r m' msgs \<Rightarrow> False
       | Abort e \<Rightarrow> False))"
  using load_header_decode[where env = env and m = m00 and s = s and m' = m and rest = rest0]
    load_header_encode[where env = env and m = m and ?m0.0 = m0 and rest = rest]
  by (auto simp: same_header_HeaderLOD)

theorem header_round_trip_witness:
  "load_header sample_env new_model good_header
     = Continue (new_model\<lparr>MaterialSlots := [sample_slot], LODs := [sample_lod]\<rparr>) [] \<and>
   header_valid sample_env (new_model\<lparr>MaterialSlots := [sample_slot], LODs := [sample_lod]\<rparr>) \<and>
   header_valid sample_env resident_model \<and>
   map (\<lambda>lod. map IndexBuffer (Meshes lod)) (LODs resident_model)
     = [[Some []], [Some []], [Some []]] \<and>
   (case load_header sample_env new_model (Save_header resident_model @ []) of
      Continue m' rest' \<Rightarrow> rest' = [] \<and> same_header m' resident_model
    | Return r m' msgs \<Rightarrow> False
    | Abort e \<Rightarrow> False)"
proof -
  let ?m = "new_model\<lparr>MaterialSlots := [sample_slot], LODs := [sample_lod]\<rparr>"
  have v1: "header_valid sample_env ?m"
    using header_round_trip[where env = sample_env and ?m00.0 = new_model and s = good_header
        and m = ?m and ?rest0.0 = "[]"] load_header_good_header by simp
  have v2: "header_valid sample_env resident_model"
    by (simp add: header_valid_def sample_env_def resident_model_def new_model_def lod_ok_def
      mesh_ok_def sample_Load_def sample_lod_def sample_mesh_def Mesh_Init_def)
  have b: "map (\<lambda>lod. map IndexBuffer (Meshes lod)) (LODs resident_model)
             = [[Some []], [Some []], [Some []]]"
    by (simp add: resident_model_def new_model_def sample_Load_def sample_lod_def)
  have r: "case load_header sample_env new_model (Save_header resident_model @ []) of
      Continue m' rest' \<Rightarrow> rest' = [] \<and> same_header m' resident_model
    | Return r m' msgs \<Rightarrow> False
    | Abort e \<Rightarrow> False"
    using header_round_trip[where env = sample_env and m = resident_model and ?m0.0 = new_model
        and rest = "[]"] v2
    by simp
  show ?thesis using load_header_good_header v1 v2 b r by simp
qed

text \<open>
  Claim C5 as stated fails for a loaded asset that has left these bounds. The asset is
  loaded from a header with one slot; \<^verbatim>\<open>SetupMaterialSlots(0)\<close> empties the slot
  table (and re-points the mesh to the index -1). \<^verbatim>\<open>Save\<close> checks no bound and
  writes the slot count 0; \<^verbatim>\<open>load\<close> rejects that header as invalid data.
\<close>

theorem header_round_trip_fails_after_slots_removed:
  "(case load sample_env good_header_model of
      Inr (r, m) \<Rightarrow>
        r = Ok \<and> length (MaterialSlots m) = 1 \<and>
        MaterialSlots (SetupMaterialSlots sample_env m 0) = [] \<and>
        Save_header (SetupMaterialSlots sample_env m 0)
          = [Float 0, Int32 0, Byte 1, Float float_one, Uint16 1,
             Int32 (- 1), BoxItem BoundingBox_Zero, SphereItem BoundingSphere_Empty, Bool True] \<and>
        load_header sample_env new_model (Save_header (SetupMaterialSlots sample_env m 0))
          = Return InvalidData new_model [] \<and>
        (case load sample_env
                (new_model\<lparr>Chunks := (\<lambda>i. if i = 0
                     then Some (Save_header (SetupMaterialSlots sample_env m 0)) else None)\<rparr>) of
           Inr (r', m') \<Rightarrow> r' = InvalidData
         | Inl e \<Rightarrow> False)
    | Inl e \<Rightarrow> False)"
proof -
  let ?g = "good_header_model\<lparr>MinScreenSize := 0, MaterialSlots := [sample_slot],
                                LODs := [sample_lod]\<rparr>"
  have c0: "Chunks good_header_model 0 = Some good_header"
    and c15: "Chunks good_header_model 15 = None"
    by (simp_all add: good_header_model_def new_model_def)
  have h: "load_header sample_env good_header_model good_header = Continue ?g []"
    by (rule load_header_good_header_any) (simp_all add: sample_env_def)
  have s: "load_sdf sample_env ?g = Continue ?g []"
    by (simp add: load_sdf_def c15)
  have l: "load sample_env good_header_model = Inr (Ok, StartStreaming ?g)"
    by (simp add: load_def c0 h s Let_def)
  let ?m = "SetupMaterialSlots sample_env (StartStreaming ?g) 0"
  have sv: "Save_header ?m
          = [Float 0, Int32 0, Byte 1, Float float_one, Uint16 1,
             Int32 (- 1), BoxItem BoundingBox_Zero, SphereItem BoundingSphere_Empty, Bool True]"
    by (simp add: Save_header_def SetupMaterialSlots_def ModelBase_SetupMaterialSlots_def
        sample_env_def StartStreaming_def good_header_model_def new_model_def Let_def
        Resize_def WriteLOD_def WriteMesh_def sample_lod_def sample_mesh_def Mesh_Init_def
        AdjustMesh_def int32_def)
  have ms: "MaterialSlots ?m = []"
    by (simp add: SetupMaterialSlots_def ModelBase_SetupMaterialSlots_def
        sample_env_def StartStreaming_def Let_def Resize_def)
  have lh: "load_header sample_env new_model (Save_header ?m) = Return InvalidData new_model []"
    unfolding sv by (simp add: load_header_step new_model_def)
  have ld: "case load sample_env
                (new_model\<lparr>Chunks := (\<lambda>i. if i = 0 then Some (Save_header ?m) else None)\<rparr>) of
           Inr (r', m') \<Rightarrow> r' = InvalidData
         | Inl e \<Rightarrow> False"
    unfolding sv by (simp add: load_def load_header_step)
  have n: "length (MaterialSlots (StartStreaming ?g)) = 1"
    by (simp add: StartStreaming_def)
  show ?thesis
    unfolding l using n sv ms lh ld by simp
qed

subsection \<open>Saving the index buffers\<close>

text \<open>
  Claim C7, as amended. Take a mesh that passes the size checks of \<^verbatim>\<open>Save\<close>. When
  the width derived from the count (16-bit when \<open>triangleCount * 3 \<le> 65535\<close>, the
  product taken in \<^verbatim>\<open>uint32\<close>) agrees with the mesh's use-16-bit flag, the first
  \<open>ibSize\<close> bytes of the index buffer are written as they are. When the derived width
  is 16-bit and the indices are stored with 32 bits, each index is written on its own as
  a 16-bit value, the low 16 bits of the stored element. When the derived width is
  32-bit and the indices are stored with 16 bits, nothing is widened: \<^verbatim>\<open>Save\<close> stops
  at \<^verbatim>\<open>CRASH\<close>.
\<close>

theorem Save_mesh_index_buffer:
  assumes "\<forall>msgs. Save_mesh env mesh meshData \<noteq> Fail msgs"
  shows "let indicesCount = TriangleCount mesh * 3;
             shouldUse16BitIndexBuffer = (indicesCount \<le> 65535);
             use16BitIndexBuffer = Use16BitIndexBuffer mesh;
             ib = BytesGet (IB meshData)
         in (shouldUse16BitIndexBuffer = use16BitIndexBuffer \<longrightarrow>
               Save_mesh env mesh meshData =
                 Done (MeshDataHead env mesh meshData
                       @ [Bytes (take (unat (indicesCount * (if use16BitIndexBuffer then 2 else 4))) ib)])) \<and>
            (shouldUse16BitIndexBuffer \<and> \<not> use16BitIndexBuffer \<longrightarrow>
               Save_mesh env mesh meshData =
                 Done (MeshDataHead env mesh meshData
                       @ map (\<lambda>i. Uint16 (ucast (Int32At ib i))) [0 ..< unat indicesCount]) \<and>
               (\<forall>i. unat (ucast (Int32At ib i) :: 16 word) = unat (Int32At ib i) mod 65536)) \<and>
            (\<not> shouldUse16BitIndexBuffer \<and> use16BitIndexBuffer \<longrightarrow>
               Save_mesh env mesh meshData = Stop Crashed)"
proof -
  have c1: "\<not> (VertexCount mesh = 0 \<or> TriangleCount mesh = 0)"
  proof
    assume "VertexCount mesh = 0 \<or> TriangleCount mesh = 0"
    then have "Save_mesh env mesh meshData = Fail [(Warning, ''Cannot save model with empty meshes.'')]"
      by (simp add: Save_mesh_def Let_def)
    with assms show False by simp
  qed
  have c2: "\<not> BytesLength (VB0 meshData) < VertexCount mesh * sizeof_VB0ElementType env"
  proof
    assume "BytesLength (VB0 meshData) < VertexCount mesh * sizeof_VB0ElementType env"
    then have "Save_mesh env mesh meshData = Fail [(Warning, ''Invalid vertex buffer 0 size.'')]"
      using c1 by (simp add: Save_mesh_def Let_def)
    with assms show False by simp
  qed
  have c3: "\<not> BytesLength (VB1 meshData) < VertexCount mesh * sizeof_VB1ElementType env"
  proof
    assume "BytesLength (VB1 meshData) < VertexCount mesh * sizeof_VB1ElementType env"
    then have "Save_mesh env mesh meshData = Fail [(Warning, ''Invalid vertex buffer 1 size.'')]"
      using c1 c2 by (simp add: Save_mesh_def Let_def)
    with assms show False by simp
  qed
  have c4: "\<not> (VB2 meshData \<noteq> None
               \<and> BytesLength (VB2 meshData) < VertexCount mesh * sizeof_VB2ElementType env)"
  proof
    assume "VB2 meshData \<noteq> None
               \<and> BytesLength (VB2 meshData) < VertexCount mesh * sizeof_VB2ElementType env"
    then have "Save_mesh env mesh meshData = Fail [(Warning, ''Invalid vertex buffer 2 size.'')]"
      using c1 c2 c3 by (simp add: Save_mesh_def Let_def)
    with assms show False by simp
  qed
  have c5: "\<not> BytesLength (IB meshData)
               < TriangleCount mesh * 3 * (if Use16BitIndexBuffer mesh then 2 else 4)"
  proof
    assume "BytesLength (IB meshData)
               < TriangleCount mesh * 3 * (if Use16BitIndexBuffer mesh then 2 else 4)"
    then have "Save_mesh env mesh meshData = Fail [(Warning, ''Invalid index buffer size.'')]"
      using c1 c2 c3 c4 by (simp add: Save_mesh_def Let_def)
    with assms show False by simp
  qed
  have n: "unat (ucast w :: 16 word) = unat w mod 65536" for w :: "32 word"
    by (simp add: unsigned_ucast_eq take_bit_eq_mod)
  show ?thesis
    using c1 c2 c3 c4 c5 n
    by (cases "Use16BitIndexBuffer mesh") (auto simp: Save_mesh_def Let_def)
qed

theorem Save_mesh_index_buffer_witness:
  "(\<forall>msgs. Save_mesh sample_env plain_mesh plain_data \<noteq> Fail msgs) \<and>
   (TriangleCount plain_mesh * 3 \<le> 65535) = Use16BitIndexBuffer plain_mesh \<and>
   Save_mesh sample_env plain_mesh plain_data
     = Done (MeshDataHead sample_env plain_mesh plain_data @ [Bytes [0, 0, 1, 0, 2, 0]]) \<and>
   (\<forall>msgs. Save_mesh sample_env narrow_mesh narrow_data \<noteq> Fail msgs) \<and>
   TriangleCount narrow_mesh * 3 \<le> 65535 \<and> \<not> Use16BitIndexBuffer narrow_mesh \<and>
   Save_mesh sample_env narrow_mesh narrow_data
     = Done (MeshDataHead sample_env narrow_mesh narrow_data @ [Uint16 1, Uint16 2, Uint16 256]) \<and>
   (\<forall>msgs. Save_mesh sample_env wide_mesh wide_data \<noteq> Fail msgs) \<and>
   \<not> TriangleCount wide_mesh * 3 \<le> 65535 \<and> Use16BitIndexBuffer wide_mesh \<and>
   Save_mesh sample_env wide_mesh wide_data = Stop Crashed"
proof -
  have e1: "Save_mesh sample_env plain_mesh plain_data
     = Done (MeshDataHead sample_env plain_mesh plain_data @ [Bytes [0, 0, 1, 0, 2, 0]])"
    by (simp add: Save_mesh_def plain_mesh_def plain_data_def sample_env_def sample_mesh_def
      Mesh_Init_def BytesLength_def BytesGet_def Let_def)
  have e2: "Save_mesh sample_env narrow_mesh narrow_data
     = Done (MeshDataHead sample_env narrow_mesh narrow_data @ [Uint16 1, Uint16 2, Uint16 256])"
    by (simp add: Save_mesh_def narrow_mesh_def narrow_data_def sample_env_def sample_mesh_def
      Mesh_Init_def BytesLength_def BytesGet_def Let_def Int32At_def upt_rec)
  have e3: "Save_mesh sample_env wide_mesh wide_data = Stop Crashed"
    by (simp add: Save_mesh_def wide_mesh_def wide_data_def sample_env_def sample_mesh_def
      Mesh_Init_def BytesLength_def Let_def)
  have h1: "\<forall>msgs. Save_mesh sample_env plain_mesh plain_data \<noteq> Fail msgs"
    by (simp add: e1)
  have h2: "\<forall>msgs. Save_mesh sample_env narrow_mesh narrow_data \<noteq> Fail msgs"
    by (simp add: e2)
  have h3: "\<forall>msgs. Save_mesh sample_env wide_mesh wide_data \<noteq> Fail msgs"
    by (simp add: e3)
  have w1: "(TriangleCount plain_mesh * 3 \<le> 65535) = Use16BitIndexBuffer plain_mesh"
    and w2: "TriangleCount narrow_mesh * 3 \<le> 65535" "\<not> Use16BitIndexBuffer narrow_mesh"
    and w3: "\<not> TriangleCount wide_mesh * 3 \<le> 65535" "Use16BitIndexBuffer wide_mesh"
    by (simp_all add: plain_mesh_def narrow_mesh_def wide_mesh_def sample_mesh_def Mesh_Init_def)
  have r1: "Save_mesh sample_env plain_mesh plain_data
     = Done (MeshDataHead sample_env plain_mesh plain_data @ [Bytes [0, 0, 1, 0, 2, 0]])"
    using Save_mesh_index_buffer [OF h1] w1
    by (simp add: Let_def plain_mesh_def plain_data_def sample_mesh_def Mesh_Init_def
        BytesGet_def)
  have r2: "Save_mesh sample_env narrow_mesh narrow_data
     = Done (MeshDataHead sample_env narrow_mesh narrow_data @ [Uint16 1, Uint16 2, Uint16 256])"
    using Save_mesh_index_buffer [OF h2] w2
    by (simp add: Let_def narrow_mesh_def narrow_data_def sample_mesh_def Mesh_Init_def
        BytesGet_def Int32At_def upt_rec)
  have r3: "Save_mesh sample_env wide_mesh wide_data = Stop Crashed"
    using Save_mesh_index_buffer [OF h3] w3 by (simp add: Let_def)
  show ?thesis
    using h1 h2 h3 w1 w2 w3 r1 r2 r3 by simp
qed

text \<open>
  Claim C7 as stated fails where the widths disagree the other way: 21846 triangles
  make 65538 indices, so the count asks for 32-bit indices, while the mesh stores 16-bit
  ones. \<^verbatim>\<open>Save\<close> writes no index at all for this mesh; it stops at \<^verbatim>\<open>CRASH\<close>.
\<close>

theorem Save_mesh_does_not_widen:
  "\<not> (TriangleCount wide_mesh * 3 \<le> 65535) \<and> Use16BitIndexBuffer wide_mesh \<and>
   BytesLength (IB wide_data) = TriangleCount wide_mesh * 3 * 2 \<and>
   Save_mesh sample_env wide_mesh wide_data = Stop Crashed"
  by (simp add: Save_mesh_def wide_mesh_def wide_data_def sample_env_def sample_mesh_def
      Mesh_Init_def BytesLength_def Let_def)

subsection \<open>An SDF chunk of an unknown version\<close>

lemma ValidateLODs_only_log:
  "\<exists>msgs. ValidateLODs env is m = m\<lparr>Log := Log m @ msgs\<rparr> \<and>
          set msgs \<subseteq> {(Warning, ''Model LOD has invalid screen size'')}"
proof (induction "is" arbitrary: m)
  case Nil
  show ?case by (intro exI[of _ "[]"]) simp
next
  case (Cons i "is")
  let ?m = "if FloatLessEq env (ScreenSize (LODs m ! (i - 1))) (ScreenSize (LODs m ! i))
            then LOG Warning ''Model LOD has invalid screen size'' m else m"
  from Cons.IH[of ?m] obtain msgs where
    ih: "ValidateLODs env is ?m = ?m\<lparr>Log := Log ?m @ msgs\<rparr>"
        "set msgs \<subseteq> {(Warning, ''Model LOD has invalid screen size'')}"
    by blast
  show ?case
  proof (cases "FloatLessEq env (ScreenSize (LODs m ! (i - 1))) (ScreenSize (LODs m ! i))")
    case True
    then show ?thesis
      using ih
      by (intro exI[of _ "(Warning, ''Model LOD has invalid screen size'') # msgs"])
         (simp add: LOG_def)
  next
    case False
    then show ?thesis
      using ih by (intro exI[of _ msgs]) simp
  qed
qed

lemma ValidateLODs_keeps:
  "SDF (ValidateLODs env is m) = SDF m" "loadedLODs (ValidateLODs env is m) = loadedLODs m"
  "LODs (ValidateLODs env is m) = LODs m"
  "ReleasedTextures (ValidateLODs env is m) = ReleasedTextures m"
  "StartedMipTasks (ValidateLODs env is m) = StartedMipTasks m"
  "x \<noteq> (Warning, ''Model LOD has invalid screen size'') \<Longrightarrow>
     x \<in> set (Log (ValidateLODs env is m)) \<longleftrightarrow> x \<in> set (Log m)"
proof -
  obtain msgs where v: "ValidateLODs env is m = m\<lparr>Log := Log m @ msgs\<rparr>"
    "set msgs \<subseteq> {(Warning, ''Model LOD has invalid screen size'')}"
    using ValidateLODs_only_log by blast
  show "SDF (ValidateLODs env is m) = SDF m" "loadedLODs (ValidateLODs env is m) = loadedLODs m"
    "LODs (ValidateLODs env is m) = LODs m"
    "ReleasedTextures (ValidateLODs env is m) = ReleasedTextures m"
    "StartedMipTasks (ValidateLODs env is m) = StartedMipTasks m"
    by (simp_all add: v(1))
  show "x \<in> set (Log (ValidateLODs env is m)) \<longleftrightarrow> x \<in> set (Log m)"
    if "x \<noteq> (Warning, ''Model LOD has invalid screen size'')"
    using that v(2) by (auto simp: v(1))
qed

lemma load_sdf_unknown_version:
  assumes "Chunks m 15 = Some (Int32 v # s1)" and "sint v \<noteq> 1"
  shows "load_sdf env m =
           Continue (if EnableModelSDF env = 1 then LOG Warning ''Unknown SDF data version'' m
                     else m) []"
  using assms by (simp add: load_sdf_def)

text \<open>
  Claim C6, as amended. Let the header chunk load, and let chunk 15 be loaded and start
  with a version tag other than 1. Then \<^verbatim>\<open>load\<close> succeeds; the asset's SDF is what
  it was (unset when it was unset: no texture is created, released or uploaded to), the
  residency is what it was and the LODs are as the header part left them. The warning
  about the unknown version is logged when SDF support is enabled for the process
  (\<^verbatim>\<open>EnableModelSDF == 1\<close>); when it is not, the chunk is skipped without a word.
\<close>

theorem unknown_sdf_version_is_skipped:
  assumes "Chunks m 0 = Some headerStream"
    and "load_header env m headerStream = Continue m1 rest"
    and "Chunks m 15 = Some (Int32 version # s1)" and "sint version \<noteq> 1"
  shows "case load env m of
           Inr (r, m') \<Rightarrow>
             r = Ok \<and> SDF m' = SDF m \<and> loadedLODs m' = loadedLODs m \<and> LODs m' = LODs m1
             \<and> ReleasedTextures m' = ReleasedTextures m
             \<and> StartedMipTasks m' = StartedMipTasks m
             \<and> ((Warning, ''Unknown SDF data version'') \<in> set (Log m')
                  \<longleftrightarrow> EnableModelSDF env = 1
                      \<or> (Warning, ''Unknown SDF data version'') \<in> set (Log m))
         | Inl e \<Rightarrow> False"
proof -
  from load_header_decode[OF assms(2)]
  have m1: "m1 = m\<lparr>MinScreenSize := MinScreenSize m1, MaterialSlots := MaterialSlots m1,
                   LODs := LODs m1\<rparr>"
    by simp
  have c: "Chunks m1 15 = Some (Int32 version # s1)"
    by (subst m1) (simp add: assms(3))
  have keep: "SDF m1 = SDF m" "loadedLODs m1 = loadedLODs m" "Log m1 = Log m"
    "ReleasedTextures m1 = ReleasedTextures m" "StartedMipTasks m1 = StartedMipTasks m"
    by (subst m1, simp)+
  let ?m2 = "if EnableModelSDF env = 1 then LOG Warning ''Unknown SDF data version'' m1 else m1"
  note sdf = load_sdf_unknown_version[OF c assms(4), of env]
  let ?m3 = "if BUILD_RELEASE env then ?m2 else ValidateLODs env [1 ..< length (LODs ?m2)] ?m2"
  have l: "load env m = Inr (Ok, StartStreaming ?m3)"
    by (simp add: load_def assms(1,2) sdf Let_def)
  show ?thesis
    unfolding l using keep
    by (cases "BUILD_RELEASE env"; cases "EnableModelSDF env = 1")
       (simp_all add: ValidateLODs_keeps StartStreaming_def LOG_def)
qed

theorem unknown_sdf_version_is_skipped_witness:
  "Chunks sdf_v2_model 0 = Some good_header \<and>
   load_header sample_env sdf_v2_model good_header
     = Continue (sdf_v2_model\<lparr>MinScreenSize := 0, MaterialSlots := [sample_slot],
                                LODs := [sample_lod]\<rparr>) [] \<and>
   Chunks sdf_v2_model 15 = Some (Int32 2 # []) \<and> sint (2 :: 32 word) \<noteq> 1 \<and>
   EnableModelSDF sample_env = 1 \<and>
   (case load sample_env sdf_v2_model of
      Inr (r, m') \<Rightarrow>
        r = Ok \<and> Texture (SDF m') = None \<and> loadedLODs m' = 0 \<and> LODs m' = [sample_lod]
        \<and> StartedMipTasks m' = []
        \<and> (Warning, ''Unknown SDF data version'') \<in> set (Log m')
    | Inl e \<Rightarrow> False)"
proof -
  have c0: "Chunks sdf_v2_model 0 = Some good_header"
    and c15: "Chunks sdf_v2_model 15 = Some (Int32 2 # [])"
    by (simp_all add: sdf_v2_model_def)
  have h: "load_header sample_env sdf_v2_model good_header
     = Continue (sdf_v2_model\<lparr>MinScreenSize := 0, MaterialSlots := [sample_slot],
                                LODs := [sample_lod]\<rparr>) []"
    by (rule load_header_good_header_any) (simp_all add: sample_env_def)
  have v: "sint (2 :: 32 word) \<noteq> 1" by simp
  have e: "EnableModelSDF sample_env = 1" by (simp add: sample_env_def)
  have f: "SDF sdf_v2_model = SDF new_model" "loadedLODs sdf_v2_model = 0"
    "StartedMipTasks sdf_v2_model = []" "ReleasedTextures sdf_v2_model = []"
    "Log sdf_v2_model = []"
    by (simp_all add: sdf_v2_model_def new_model_def)
  have t: "Texture (SDF new_model) = None" by (simp add: new_model_def)
  have r: "case load sample_env sdf_v2_model of
      Inr (r, m') \<Rightarrow>
        r = Ok \<and> Texture (SDF m') = None \<and> loadedLODs m' = 0 \<and> LODs m' = [sample_lod]
        \<and> StartedMipTasks m' = []
        \<and> (Warning, ''Unknown SDF data version'') \<in> set (Log m')
    | Inl e \<Rightarrow> False"
    using unknown_sdf_version_is_skipped [OF c0 h c15 v] e t
    unfolding f by (auto split: sum.splits prod.splits)
  show ?thesis
    using c0 h c15 v e r by simp
qed

text \<open>
  Claim C6 as stated fails on a process without SDF support: the chunk with the version
  tag 2 is skipped and no warning is logged.
\<close>

theorem unknown_sdf_version_unlogged_when_disabled:
  "Chunks sdf_v2_model 15 = Some [Int32 2] \<and>
   Log sdf_v2_model = [] \<and>
   (case load (sample_env\<lparr>EnableModelSDF := 2\<rparr>) sdf_v2_model of
      Inr (r, m') \<Rightarrow> r = Ok \<and> Log m' = []
    | Inl e \<Rightarrow> False)"
proof -
  let ?env = "sample_env\<lparr>EnableModelSDF := 2\<rparr>"
  let ?m1 = "sdf_v2_model\<lparr>MinScreenSize := 0, MaterialSlots := [sample_slot],
                                LODs := [sample_lod]\<rparr>"
  have c0: "Chunks sdf_v2_model 0 = Some good_header"
    and c15: "Chunks sdf_v2_model 15 = Some [Int32 2]"
    and lg: "Log sdf_v2_model = []"
    by (simp_all add: sdf_v2_model_def new_model_def)
  have h: "load_header ?env sdf_v2_model good_header = Continue ?m1 []"
    by (rule load_header_good_header_any) (simp_all add: sample_env_def)
  have s: "load_sdf ?env ?m1 = Continue ?m1 []"
    by (simp add: load_sdf_def c15 sample_env_def)
  have "load ?env sdf_v2_model = Inr (Ok, StartStreaming ?m1)"
    by (simp add: load_def c0 h s Let_def)
  then show ?thesis
    using c15 lg by (simp add: StartStreaming_def)
qed

subsection \<open>The residency invariant\<close>

text \<open>
  The operations that keep \<open>0 \<le> residency \<le> lods.length\<close>: a streaming request, the
  upload task it creates, \<^verbatim>\<open>unload\<close>, an \<^verbatim>\<open>Init\<close> that succeeds or that
  rejects its argument, and \<^verbatim>\<open>load\<close> (which never writes the residency) on an
  asset with nothing resident.
\<close>

lemma UnloadLODs_length:
  "UnloadLODs env is lods = Inr lods' \<Longrightarrow> length lods' = length lods"
  by (induction "is" arbitrary: lods) (auto split: if_splits)

lemma CreateStreamingTask_residency_inv:
  assumes "CreateStreamingTask env m residency = Inr (t, m')" and "residency_inv m"
  shows "residency_inv m'"
  using assms
  by (auto simp: CreateStreamingTask_def residency_inv_def GetCurrentResidency_def
      GetMaxResidency_def Let_def dest: UnloadLODs_length split: if_splits sum.splits)

lemma Execute_residency_inv:
  assumes "Execute env task (Some m) = Inr (failed, Some m')" and "residency_inv m"
    and "taskLodIndex task = HighestResidentLODIndex m - 1"
  shows "residency_inv m'"
  using assms
  by (auto simp: Execute_def Run_cases OnEnd_def LOG_def residency_inv_def
      GetCurrentResidency_def GetMaxResidency_def HighestResidentLODIndex_def
      split: if_splits sum.splits option.splits)

lemma unload_residency_inv: "residency_inv (unload m)"
  by (simp add: unload_def residency_inv_def GetCurrentResidency_def GetMaxResidency_def
      DeleteSDFTexture_def Let_def split: option.splits)

lemma InitLODs_length:
  "InitLODs env counts lodIndex lods = (failed, lods') \<Longrightarrow> length lods' = length lods"
  by (induction counts arbitrary: lodIndex lods) (auto simp: Let_def split: if_splits)

lemma Init_success_residency_inv:
  assumes "Init env m counts = (False, m')"
  shows "residency_inv m'"
  using assms
  by (auto simp: Init_def residency_inv_def GetCurrentResidency_def GetMaxResidency_def
      Let_def dest!: InitLODs_length split: option.splits if_splits prod.splits)

lemma Init_rejected_residency_inv:
  assumes "counts = None \<or> MODEL_MAX_LODS env < length (the counts)" and "residency_inv m"
  shows "residency_inv (snd (Init env m counts))"
  using assms
  by (auto simp: Init_def residency_inv_def GetCurrentResidency_def GetMaxResidency_def
      LOG_def split: option.splits)

lemma load_header_loadedLODs:
  "load_header env m s = Continue m' rest \<Longrightarrow> loadedLODs m' = loadedLODs m"
  "load_header env m s = Return r m' msgs \<Longrightarrow> loadedLODs m' = loadedLODs m"
  by (auto simp: load_header_def Let_def split: sum.splits prod.splits flow.splits if_splits)

lemma load_sdf_mips_loadedLODs:
  "load_sdf_mips k m s = Inr m' \<Longrightarrow> loadedLODs m' = loadedLODs m"
  by (induction k m s rule: load_sdf_mips.induct) (auto split: if_splits)

lemma load_sdf_loadedLODs:
  "load_sdf env m = Continue m' rest \<Longrightarrow> loadedLODs m' = loadedLODs m"
  "load_sdf env m = Return r m' msgs \<Longrightarrow> loadedLODs m' = loadedLODs m"
  by (auto simp: load_sdf_def Let_def LOG_def dest: load_sdf_mips_loadedLODs
      split: option.splits sum.splits prod.splits list.splits item.splits if_splits)

lemma load_loadedLODs:
  assumes "load env m = Inr (r, m')"
  shows "loadedLODs m' = loadedLODs m"
proof (cases "Chunks m 0")
  case None
  then show ?thesis using assms by (auto simp: load_def)
next
  case (Some headerStream)
  show ?thesis
  proof (cases "load_header env m headerStream")
    case (Continue m1 rest)
    note h = load_header_loadedLODs(1)[OF Continue]
    show ?thesis
    proof (cases "load_sdf env m1")
      case (Continue m2 rest')
      from load_sdf_loadedLODs(1)[OF this] h have "loadedLODs m2 = loadedLODs m" by simp
      then show ?thesis
        using assms Some \<open>load_header env m headerStream = Continue m1 rest\<close> Continue
        by (auto simp: load_def Let_def StartStreaming_def ValidateLODs_keeps split: if_splits)
    next
      case (Return r2 m2 msgs)
      from load_sdf_loadedLODs(2)[OF this] h have "loadedLODs m2 = loadedLODs m" by simp
      then show ?thesis
        using assms Some \<open>load_header env m headerStream = Continue m1 rest\<close> Return
        by (auto simp: load_def)
    next
      case (Abort e)
      then show ?thesis
        using assms Some \<open>load_header env m headerStream = Continue m1 rest\<close>
        by (simp add: load_def)
    qed
  next
    case (Return r1 m1 msgs)
    from load_header_loadedLODs(2)[OF this] show ?thesis
      using assms Some Return by (auto simp: load_def)
  next
    case (Abort e)
    then show ?thesis using assms Some by (simp add: load_def)
  qed
qed

lemma load_residency_inv:
  assumes "load env m = Inr (r, m')" and "loadedLODs m = 0"
  shows "residency_inv m'"
  using load_loadedLODs[OF assms(1)] assms(2)
  by (simp add: residency_inv_def GetCurrentResidency_def GetMaxResidency_def)

text \<open>
  Claim C1, at the input where the code breaks it. A virtual asset is set up with three
  LODs of one mesh each, which makes all three resident; then \<^verbatim>\<open>SetupLODs\<close> is
  called with the mesh counts \<open>[0]\<close>. \<^verbatim>\<open>Init\<close> disposes the LODs, resizes the
  LOD array to one element and returns failure at the mesh count 0, before the statement
  that sets the residency: the asset is left with residency 3 and one LOD, so
  \<^verbatim>\<open>GetCurrentResidency()\<close> is above \<^verbatim>\<open>GetMaxResidency()\<close> and the highest
  resident LOD index is negative.
\<close>

theorem Init_failure_leaves_residency_above_lods:
  "IsVirtual virtual_env new_model \<and>
   (case SetupLODs virtual_env new_model (Some [1, 1, 1]) of
      (failed1, m1) \<Rightarrow>
        \<not> failed1 \<and> GetCurrentResidency m1 = 3 \<and> GetMaxResidency m1 = 3 \<and> residency_inv m1 \<and>
        (case SetupLODs virtual_env m1 (Some [0]) of
           (failed2, m2) \<Rightarrow>
             failed2 \<and> GetCurrentResidency m2 = 3 \<and> GetMaxResidency m2 = 1 \<and>
             HighestResidentLODIndex m2 = - 2 \<and> \<not> residency_inv m2))"
  by (simp add: SetupLODs_def Init_def virtual_env_def sample_env_def new_model_def Let_def
      StopStreaming_def DeleteSDFTexture_def Resize_def residency_inv_def
      GetCurrentResidency_def GetMaxResidency_def HighestResidentLODIndex_def)

end
